theory Spec2Isabelle
  imports Complex_Main "HOL-Library.Sublist" "HOL-Library.AList"
begin

section \<open>The AI engagement scorer: scoring engine and dimension analyzers\<close>

text \<open>
  The development embeds \<^verbatim>\<open>src/scoring/scoringEngine.js\<close> and the three dimension
  scorers whose sources are available (\<^verbatim>\<open>promptEngineering.js\<close>,
  \<^verbatim>\<open>problemSolving.js\<close>, \<^verbatim>\<open>criticalThinking.js\<close>).

  Strings. A JavaScript string is a sequence of UTF-16 code units. The model uses
  \<^typ>\<open>string\<close> and reads each \<^typ>\<open>char\<close> as one code unit in the range 0..255
  (ISO 8859-1), so \<^const>\<open>length\<close> is \<^verbatim>\<open>.length\<close> and the model covers exactly the
  messages whose code units are below 256. On this range \<^verbatim>\<open>toLowerCase\<close>,
  the class \<^verbatim>\<open>\s\<close>, the class \<^verbatim>\<open>.\<close> and case-insensitive matching of ASCII
  letters are known exactly and are written out below.
\<close>

subsection \<open>String primitives\<close>

text \<open>\<^verbatim>\<open>String.prototype.toLowerCase\<close> on code units below 256: A..Z and the capital
  letters 0xC0..0xDE except the multiplication sign 0xD7 move up by 32.\<close>

definition toLowerCase_char :: "char \<Rightarrow> char" where
  "toLowerCase_char c =
     (let n = (of_char c :: nat) in
      if (65 \<le> n \<and> n \<le> 90) \<or> (192 \<le> n \<and> n \<le> 222 \<and> n \<noteq> 215)
      then char_of (n + 32) else c)"

definition toLowerCase :: "string \<Rightarrow> string" where
  "toLowerCase s = map toLowerCase_char s"

text \<open>\<^verbatim>\<open>s.includes(m)\<close>: \<^verbatim>\<open>m\<close> occurs in \<^verbatim>\<open>s\<close> as a contiguous substring.\<close>

fun str_includes :: "string \<Rightarrow> string \<Rightarrow> bool" where
  "str_includes [] m = (m = [])"
| "str_includes (c # cs) m = (prefix m (c # cs) \<or> str_includes cs m)"

text \<open>\<^verbatim>\<open>markers.some(marker => text.includes(marker))\<close>\<close>

definition some_includes :: "string list \<Rightarrow> string \<Rightarrow> bool" where
  "some_includes markers text = list_ex (\<lambda>marker. str_includes text marker) markers"

text \<open>The class \<^verbatim>\<open>\s\<close> on code units below 256: TAB, LF, VT, FF, CR, space, NBSP.\<close>

definition is_space :: "char \<Rightarrow> bool" where
  "is_space c = ((of_char c :: nat) \<in> {9, 10, 11, 12, 13, 32, 160})"

text \<open>\<^verbatim>\<open>s.split(/\s+/)\<close>: the pieces between the maximal runs of white space. A run at
  the start or at the end of \<^verbatim>\<open>s\<close> leaves an empty piece there, and the empty string
  splits into one empty piece.\<close>

function split_ws :: "string \<Rightarrow> string list" where
  "split_ws [] = [[]]"
| "split_ws (c # cs) =
     (if is_space c then [] # split_ws (dropWhile is_space cs)
      else (case split_ws cs of [] \<Rightarrow> [[c]] | p # ps \<Rightarrow> (c # p) # ps))"
  by pat_completeness auto
termination
  by (relation "measure length") (auto simp: length_dropWhile_le less_Suc_eq_le)

text \<open>\<^verbatim>\<open>(text.match(/pat/g) || []).length\<close> for a literal pattern: the matches are
  found left to right and do not overlap.\<close>

function count_matches :: "string \<Rightarrow> string \<Rightarrow> nat" where
  "count_matches pat [] = 0"
| "count_matches pat (c # cs) =
     (if pat \<noteq> [] \<and> prefix pat (c # cs)
      then Suc (count_matches pat (drop (length pat - 1) cs))
      else count_matches pat cs)"
  by pat_completeness auto
termination
  by (relation "measure (\<lambda>(pat, s). length s)") auto

text \<open>Decimal rendering of an array index or a count inside a template literal.\<close>

definition digit_char :: "nat \<Rightarrow> char" where
  "digit_char d = char_of (48 + d)"

function show_nat :: "nat \<Rightarrow> string" where
  "show_nat n = (if n < 10 then [digit_char n] else show_nat (n div 10) @ [digit_char (n mod 10)])"
  by pat_completeness auto
termination
  by (relation "measure id") auto

declare show_nat.simps [simp del]

subsection \<open>The proficiency ladder\<close>

text \<open>\<^verbatim>\<open>getProficiencyLevel(score)\<close> on integer scores.\<close>

definition getProficiencyLevel :: "int \<Rightarrow> string" where
  "getProficiencyLevel score =
     (if score \<ge> 86 then ''Expert''
      else if score \<ge> 76 then ''Advanced''
      else if score \<ge> 61 then ''Proficient''
      else if score \<ge> 41 then ''Intermediate''
      else ''Novice'')"

text \<open>The position of a tier name in the ladder, lowest tier first.\<close>

definition tier_rank :: "string \<Rightarrow> nat" where
  "tier_rank l =
     (if l = ''Novice'' then 0 else if l = ''Intermediate'' then 1
      else if l = ''Proficient'' then 2 else if l = ''Advanced'' then 3
      else if l = ''Expert'' then 4 else 5)"

subsection \<open>JavaScript values and input validation\<close>

text \<open>The values \<^verbatim>\<open>analyzeConversation\<close> can be called with. Numbers are kept to the
  integers (of a number only its truthiness and its type are read). An object is the list of
  its own properties, with distinct keys; an array is dense (it has no holes).\<close>

datatype jsval =
    JUndefined
  | JNull
  | JBool bool
  | JNum int
  | JStr string
  | JArr "jsval list"
  | JObj "(string \<times> jsval) list"

datatype exn = Error string | TypeError

text \<open>\<^verbatim>\<open>!v\<close> is \<^verbatim>\<open>\<not> truthy v\<close>.\<close>

fun truthy :: "jsval \<Rightarrow> bool" where
  "truthy JUndefined = False"
| "truthy JNull = False"
| "truthy (JBool b) = b"
| "truthy (JNum n) = (n \<noteq> 0)"
| "truthy (JStr s) = (s \<noteq> [])"
| "truthy (JArr vs) = True"
| "truthy (JObj kvs) = True"

text \<open>\<^verbatim>\<open>v.role\<close> and \<^verbatim>\<open>v.content\<close>: reading a property of \<^verbatim>\<open>undefined\<close> or
  \<^verbatim>\<open>null\<close> throws a TypeError; a primitive or an array has neither property.\<close>

fun get_prop :: "jsval \<Rightarrow> string \<Rightarrow> exn + jsval" where
  "get_prop JUndefined k = Inl TypeError"
| "get_prop JNull k = Inl TypeError"
| "get_prop (JObj kvs) k = Inr (case map_of kvs k of None \<Rightarrow> JUndefined | Some v \<Rightarrow> v)"
| "get_prop v k = Inr JUndefined"

text \<open>A message that has passed validation: its content is a string; its role is any
  truthy value, and the analyzers only compare it with \<^verbatim>\<open>'user'\<close> and
  \<^verbatim>\<open>'assistant'\<close>.\<close>

record message =
  role :: jsval
  content :: string

text \<open>The body of the validating \<^verbatim>\<open>forEach\<close> callback for one element.\<close>

definition validate_message :: "jsval \<Rightarrow> nat \<Rightarrow> exn + message" where
  "validate_message msg index =
     (case get_prop msg ''role'' of
        Inl e \<Rightarrow> Inl e
      | Inr r \<Rightarrow>
         (case get_prop msg ''content'' of
            Inl e \<Rightarrow> Inl e
          | Inr c \<Rightarrow>
             if \<not> truthy r \<or> \<not> truthy c
             then Inl (Error (''Message at index '' @ show_nat index @
                              '' must have role and content properties''))
             else (case c of
                     JStr s \<Rightarrow> Inr \<lparr>role = r, content = s\<rparr>
                   | _ \<Rightarrow> Inl (Error (''Message content at index '' @ show_nat index @
                                      '' must be a string'')))))"

fun validate_from :: "nat \<Rightarrow> jsval list \<Rightarrow> exn + message list" where
  "validate_from index [] = Inr []"
| "validate_from index (msg # msgs) =
     (case validate_message msg index of
        Inl e \<Rightarrow> Inl e
      | Inr m \<Rightarrow>
         (case validate_from (Suc index) msgs of
            Inl e \<Rightarrow> Inl e
          | Inr ms \<Rightarrow> Inr (m # ms)))"

text \<open>The two validation steps at the head of \<^verbatim>\<open>analyzeConversation\<close>.\<close>

definition validate :: "jsval \<Rightarrow> exn + message list" where
  "validate conversation =
     (case conversation of
        JArr msgs \<Rightarrow> validate_from 0 msgs
      | _ \<Rightarrow> Inl (Error ''Conversation must be an array of messages''))"

definition is_user :: "message \<Rightarrow> bool" where
  "is_user msg = (role msg = JStr ''user'')"

definition is_assistant :: "message \<Rightarrow> bool" where
  "is_assistant msg = (role msg = JStr ''assistant'')"

subsection \<open>Results of a dimension analyzer\<close>

record dimension_result =
  score :: int
  breakdown :: "(string \<times> int) list"
  feedback :: "string list"

text \<open>\<^verbatim>\<open>let m = 0; xs.forEach(x => { ...; m = Math.max(m, score) })\<close>\<close>

definition max_over :: "('a \<Rightarrow> int) \<Rightarrow> 'a list \<Rightarrow> int" where
  "max_over f xs = foldl (\<lambda>maxScore x. max maxScore (f x)) 0 xs"

text \<open>\<^verbatim>\<open>Object.values(scores).reduce((sum, score) => sum + score, 0)\<close>\<close>

definition sum_values :: "(string \<times> int) list \<Rightarrow> int" where
  "sum_values scores = foldl (\<lambda>sum score. sum + score) 0 (map snd scores)"

definition newline :: char where
  "newline = CHR 0x0A"

subsection \<open>Prompt engineering scorer\<close>

definition specificMarkers :: "string list" where
  "specificMarkers = [''specific'', ''exactly'', ''precisely'', ''detailed'', ''particular'']"

definition vagueMarkers :: "string list" where
  "vagueMarkers = [''something'', ''stuff'', ''things'', ''help me with'', ''general'']"

definition wordCount :: "string \<Rightarrow> nat" where
  "wordCount s = length (split_ws s)"

definition specificity_score :: "message \<Rightarrow> int" where
  "specificity_score prompt =
     (let text = toLowerCase (content prompt);
          wc = wordCount (content prompt)
      in (if wc > 50 then 2 else 0) + (if wc > 100 then 1 else 0)
         + (if some_includes specificMarkers text then 2 else 0)
         + (if \<not> some_includes vagueMarkers text then 1 else 0))"

definition assessSpecificity :: "message list \<Rightarrow> int" where
  "assessSpecificity prompts = min 6 (max_over specificity_score prompts)"

text \<open>The bullet U+2022 is not a code unit below 256, so on the strings of the model
  \<^verbatim>\<open>content.includes('\<bullet>')\<close> is false.\<close>

definition includes_bullet :: "string \<Rightarrow> bool" where
  "includes_bullet s = False"

definition is_digit :: "char \<Rightarrow> bool" where
  "is_digit c = (48 \<le> (of_char c :: nat) \<and> (of_char c :: nat) \<le> 57)"

text \<open>\<^verbatim>\<open>/\d+\./.test(s)\<close>: some digit is directly followed by a full stop.\<close>

fun hasNumbering :: "string \<Rightarrow> bool" where
  "hasNumbering (c # d # cs) = ((is_digit c \<and> d = CHR ''.'') \<or> hasNumbering (d # cs))"
| "hasNumbering cs = False"

definition structure_score :: "message \<Rightarrow> int" where
  "structure_score prompt =
     (let c = content prompt;
          hasBulletPoints = (str_includes c ''-'' \<or> includes_bullet c);
          hasSections = str_includes c [newline, newline];
          lineBreaks = count_matches [newline] c
      in (if hasBulletPoints \<or> hasNumbering c then 3 else 0)
         + (if hasSections \<and> lineBreaks > 2 then 2 else 0)
         + (if lineBreaks > 4 then 1 else 0))"

definition assessStructure :: "message list \<Rightarrow> int" where
  "assessStructure prompts = min 6 (max_over structure_score prompts)"

definition contextMarkers :: "string list" where
  "contextMarkers = [''context:'', ''background:'', ''assume'', ''given that'', ''scenario:'']"

definition constraintMarkers :: "string list" where
  "constraintMarkers = [''constraint'', ''limit'', ''must'', ''should not'', ''requirement'']"

definition context_score :: "message \<Rightarrow> int" where
  "context_score prompt =
     (let text = toLowerCase (content prompt);
          hasExamples = (str_includes text ''example'' \<or> str_includes text ''e.g.''
                         \<or> str_includes text ''for instance'')
      in (if some_includes contextMarkers text then 3 else 0)
         + (if hasExamples then 2 else 0)
         + (if some_includes constraintMarkers text then 1 else 0))"

definition assessContext :: "message list \<Rightarrow> int" where
  "assessContext prompts = min 6 (max_over context_score prompts)"

text \<open>The role patterns \<^verbatim>\<open>/act as (a|an) (.+?)(?:\.|,|\n|$)/i\<close>,
  \<^verbatim>\<open>/you are (a|an) (.+?)(?:\.|,|\n|$)/i\<close> and \<^verbatim>\<open>/as (a|an) (.+?)(?:\.|,|\n|$)/i\<close>
  differ in their literal head only. The class \<^verbatim>\<open>.\<close> excludes the line terminators
  LF and CR; \<^verbatim>\<open>$\<close> (no \<^verbatim>\<open>m\<close> flag) is the end of the text; under \<^verbatim>\<open>/i\<close> an ASCII
  letter of the pattern matches its two cases and nothing else.\<close>

definition is_line_terminator :: "char \<Rightarrow> bool" where
  "is_line_terminator c = (c = CHR 0x0A \<or> c = CHR 0x0D)"

text \<open>The lazy group \<^verbatim>\<open>(.+?)\<close> after its first character: it stops at the first place
  where \<^verbatim>\<open>(?:\.|,|\n|$)\<close> matches, and fails on a CR met before.\<close>

fun lazy_rest :: "string \<Rightarrow> string option" where
  "lazy_rest [] = Some []"
| "lazy_rest (c # cs) =
     (if c = CHR ''.'' \<or> c = CHR '','' \<or> c = CHR 0x0A then Some []
      else if is_line_terminator c then None
      else map_option ((#) c) (lazy_rest cs))"

text \<open>\<^verbatim>\<open>(.+?)(?:\.|,|\n|$)\<close> at the start of the string; the result is the capture.\<close>

fun capture_role :: "string \<Rightarrow> string option" where
  "capture_role [] = None"
| "capture_role (c # cs) =
     (if is_line_terminator c then None else map_option ((#) c) (lazy_rest cs))"

text \<open>\<^verbatim>\<open>(a|an) (.+?)(?:\.|,|\n|$)\<close> at the start of the string: the alternative
  \<^verbatim>\<open>a\<close> is tried first, \<^verbatim>\<open>an\<close> when the first fails.\<close>

definition article_role :: "string \<Rightarrow> string option" where
  "article_role s =
     (case (if prefix ''a '' (toLowerCase s) then capture_role (drop 2 s) else None) of
        Some r \<Rightarrow> Some r
      | None \<Rightarrow> (if prefix ''an '' (toLowerCase s) then capture_role (drop 3 s) else None))"

text \<open>A role pattern with literal head \<^verbatim>\<open>lit\<close>, anchored at the start of the string.\<close>

definition match_here :: "string \<Rightarrow> string \<Rightarrow> string option" where
  "match_here lit s =
     (if prefix lit (toLowerCase s) then article_role (drop (length lit) s) else None)"

text \<open>\<^verbatim>\<open>text.match(pattern)\<close> without the \<^verbatim>\<open>g\<close> flag: the leftmost match; the
  result is \<^verbatim>\<open>match[2]\<close>, and \<^verbatim>\<open>None\<close> is \<^verbatim>\<open>null\<close>.\<close>

fun regex_match :: "string \<Rightarrow> string \<Rightarrow> string option" where
  "regex_match lit [] = match_here lit []"
| "regex_match lit (c # cs) =
     (case match_here lit (c # cs) of
        Some r \<Rightarrow> Some r
      | None \<Rightarrow> regex_match lit cs)"

definition rolePatterns :: "string list" where
  "rolePatterns = [''act as '', ''you are '', ''as '']"

text \<open>The points one pattern adds to \<^verbatim>\<open>score\<close>.\<close>

definition role_points :: "string option \<Rightarrow> int" where
  "role_points m =
     (case m of
        None \<Rightarrow> 0
      | Some r \<Rightarrow>
         if r \<noteq> [] \<and> length r > 5
         then 3 + (if length r > 15 then 2 else 0)
                + (if str_includes r ''with'' \<or> str_includes r ''experienced''
                      \<or> str_includes r ''expert'' then 2 else 0)
         else 0)"

definition roleDefinition_score :: "message \<Rightarrow> int" where
  "roleDefinition_score prompt =
     foldl (\<lambda>score pattern. score + role_points (regex_match pattern (content prompt)))
       0 rolePatterns"

definition assessRoleDefinition :: "message list \<Rightarrow> int" where
  "assessRoleDefinition prompts = min 7 (max_over roleDefinition_score prompts)"

definition PromptEngineering_generateFeedback :: "int \<Rightarrow> int \<Rightarrow> int \<Rightarrow> int \<Rightarrow> string list" where
  "PromptEngineering_generateFeedback specificity structure context roleDefinition =
     (let fb =
        (if specificity < 3
         then [''Try to be more specific in your prompts - include details about what you need'']
         else [])
        @ (if structure < 3
           then [''Consider using bullet points, numbering, or sections to organize your prompts'']
           else [])
        @ (if context < 3
           then [''Provide more context and examples to help the AI understand your needs better'']
           else [])
        @ (if roleDefinition < 3
           then [''Define clear roles for the AI (e.g., '' @ [CHR 0x27] @ ''Act as a marketing expert''
                  @ [CHR 0x27] @ '') to improve response quality'']
           else [])
      in if length fb > 0 then fb
         else [''Your prompt engineering skills are strong! Keep up the good work.''])"

definition PromptEngineering_analyze :: "message list \<Rightarrow> dimension_result" where
  "PromptEngineering_analyze conversation =
     (let userPrompts = filter is_user conversation in
      if length userPrompts = 0
      then \<lparr>score = 0,
            breakdown = [(''specificity'', 0), (''structure'', 0), (''context'', 0),
                         (''roleDefinition'', 0)],
            feedback = [''No user prompts found in conversation'']\<rparr>
      else
        let specificity = assessSpecificity userPrompts;
            structure = assessStructure userPrompts;
            context = assessContext userPrompts;
            roleDefinition = assessRoleDefinition userPrompts;
            scores = [(''specificity'', specificity), (''structure'', structure),
                      (''context'', context), (''roleDefinition'', roleDefinition)]
        in \<lparr>score = sum_values scores,
            breakdown = scores,
            feedback = PromptEngineering_generateFeedback specificity structure context
                         roleDefinition\<rparr>)"

subsection \<open>Problem-solving scorer\<close>

definition stepMarkers :: "string list" where
  "stepMarkers = [''step by step'', ''first'', ''then'', ''next'', ''finally'', ''break down'',
                  ''step 1'', ''step 2'']"

definition decomposition_score :: "message \<Rightarrow> int" where
  "decomposition_score msg =
     (let text = toLowerCase (content msg);
          hasStepLanguage = some_includes stepMarkers text;
          hasMultipleRequests = (count_matches ''and'' text \<ge> 2);
          hasTaskList = (str_includes text ''1.'' \<and> str_includes text ''2.'');
          hasSubTasks = (str_includes text ''subtask'' \<or> str_includes text ''component''
                         \<or> str_includes text ''part'')
      in (if hasStepLanguage then 3 else 0)
         + (if hasMultipleRequests then 2 else 0)
         + (if hasTaskList then 2 else 0)
         + (if hasSubTasks then 1 else 0))"

definition assessDecomposition :: "message list \<Rightarrow> int" where
  "assessDecomposition userMessages = min 8 (max_over decomposition_score userMessages)"

definition continuityMarkers :: "string list" where
  "continuityMarkers = [''building on'', ''following from'', ''based on previous'',
                        ''continue from'', ''as we discussed'', ''following up'']"

text \<open>The body of the loop \<^verbatim>\<open>for (let i = 1; i < userMessages.length; i++)\<close> at one
  pair of neighbours: what it adds to \<^verbatim>\<open>sequencingScore\<close>.\<close>

definition sequencing_step :: "message \<Rightarrow> message \<Rightarrow> int" where
  "sequencing_step previous current =
     (let currentText = toLowerCase (content current);
          previousText = toLowerCase (content previous);
          hasContinuity = some_includes continuityMarkers currentText;
          previousHasBasic = (str_includes previousText ''basic''
                              \<or> str_includes previousText ''simple'');
          currentHasAdvanced = (str_includes currentText ''advanced''
                                \<or> str_includes currentText ''complex'')
      in (if hasContinuity then 2 else 0)
         + (if previousHasBasic \<and> currentHasAdvanced then 2 else 0))"

fun sequencing_loop :: "message list \<Rightarrow> int \<Rightarrow> int" where
  "sequencing_loop (previous # current # rest) sequencingScore =
     sequencing_loop (current # rest) (sequencingScore + sequencing_step previous current)"
| "sequencing_loop msgs sequencingScore = sequencingScore"

definition topicKeywords :: "string list" where
  "topicKeywords = [''research'', ''analysis'', ''plan'', ''strategy'', ''design'', ''develop'',
                    ''write'', ''create'', ''build'', ''analyze'', ''calculate'', ''optimize'']"

text \<open>\<^verbatim>\<open>topics.add(keyword)\<close> on a \<^verbatim>\<open>Set\<close>, kept in insertion order.\<close>

definition set_add :: "'a list \<Rightarrow> 'a \<Rightarrow> 'a list" where
  "set_add topics x = (if x \<in> set topics then topics else topics @ [x])"

definition extractMainTopics :: "message list \<Rightarrow> string list" where
  "extractMainTopics conversation =
     foldl (\<lambda>topics msg.
              foldl (\<lambda>topics keyword.
                       if str_includes (toLowerCase (content msg)) keyword
                       then set_add topics keyword else topics)
                topics topicKeywords)
       [] conversation"

definition assessSequencing :: "message list \<Rightarrow> int" where
  "assessSequencing conversation =
     (let userMessages = filter is_user conversation in
      if length userMessages < 2 then min 8 0
      else
        let sequencingScore = sequencing_loop userMessages 0;
            mainTopics = extractMainTopics conversation
        in min 8 (if length mainTopics \<le> 3 then sequencingScore + 2 else sequencingScore))"

definition objectiveMarkers :: "string list" where
  "objectiveMarkers = [''objective:'', ''goal:'', ''i need to'', ''i want to achieve'',
                       ''purpose:'', ''aim:'', ''target:'', ''deliverable:'']"

definition completionMarkers :: "string list" where
  "completionMarkers = [''thanks'', ''perfect'', ''this solves'', ''exactly what i needed'',
                        ''completed'', ''finished'', ''that works'', ''great, that answers'']"

definition offTopicMarkers :: "string list" where
  "offTopicMarkers = [''unrelated'', ''by the way'', ''another question'',
                      ''completely different'']"

text \<open>\<^verbatim>\<open>focusRatio > 0.8\<close> is a comparison of doubles. The quotient of two array lengths
  is rounded correctly, and it lies within one rounding step of 4/5 only when it is 4/5
  (the lengths are below \<open>2\<^sup>3\<^sup>2\<close>), so the comparison agrees with the one on the
  rationals. The conversation is not empty here, since it has a user message.\<close>

definition assessGoalOrientation :: "message list \<Rightarrow> int" where
  "assessGoalOrientation conversation =
     (let userMessages = filter is_user conversation in
      if length userMessages = 0 then 0
      else
        let firstMessage = toLowerCase (content (hd userMessages));
            lastMessage = toLowerCase (content (last userMessages));
            hasClearObjective = some_includes objectiveMarkers firstMessage;
            hasActionVerbs = (str_includes firstMessage ''create''
                              \<or> str_includes firstMessage ''build''
                              \<or> str_includes firstMessage ''analyze''
                              \<or> str_includes firstMessage ''develop'');
            indicatesCompletion = some_includes completionMarkers lastMessage;
            totalMessages = length conversation;
            relevantMessages =
              length (filter (\<lambda>msg. \<not> some_includes offTopicMarkers
                                          (toLowerCase (content msg))) conversation);
            focusRatio = (of_nat relevantMessages / of_nat totalMessages :: rat)
        in min 9 ((if hasClearObjective then 3 else 0)
                  + (if hasActionVerbs then 1 else 0)
                  + (if indicatesCompletion then 3 else 0)
                  + (if focusRatio > 8 / 10 then 2 else 0)))"

definition ProblemSolving_generateFeedback :: "int \<Rightarrow> int \<Rightarrow> int \<Rightarrow> string list" where
  "ProblemSolving_generateFeedback decomposition sequencing goalOrientation =
     (let fb =
        (if decomposition < 3
         then [''Break complex problems into smaller steps - use '' @ [CHR 0x27]
                @ ''step by step'' @ [CHR 0x27] @ '' or numbered tasks'']
         else [])
        @ (if sequencing < 3
           then [''Build questions logically - reference previous answers and maintain topic flow'']
           else [])
        @ (if goalOrientation < 3
           then [''Start with clear objectives and maintain focus throughout the conversation'']
           else [])
      in if length fb > 0 then fb
         else [''Your problem-solving approach is strategic and effective! You break down tasks well and maintain clear goals.''])"

definition ProblemSolving_analyze :: "message list \<Rightarrow> dimension_result" where
  "ProblemSolving_analyze conversation =
     (let userMessages = filter is_user conversation in
      if length userMessages = 0
      then \<lparr>score = 0,
            breakdown = [(''decomposition'', 0), (''sequencing'', 0), (''goalOrientation'', 0)],
            feedback = [''No user messages found in conversation'']\<rparr>
      else
        let decomposition = assessDecomposition userMessages;
            sequencing = assessSequencing conversation;
            goalOrientation = assessGoalOrientation conversation;
            scores = [(''decomposition'', decomposition), (''sequencing'', sequencing),
                      (''goalOrientation'', goalOrientation)]
        in \<lparr>score = sum_values scores,
            breakdown = scores,
            feedback = ProblemSolving_generateFeedback decomposition sequencing
                         goalOrientation\<rparr>)"

subsection \<open>Critical thinking scorer\<close>

definition verificationMarkers :: "string list" where
  "verificationMarkers = [''verify'', ''check'', ''is this correct'', ''source'', ''reference'',
                          ''fact check'', ''evidence'', ''proof'', ''citation'', ''confirm'',
                          ''is this accurate'', ''double check'', ''validate'']"

definition doubtMarkers :: "string list" where
  "doubtMarkers = [''are you sure'', ''i think'', ''actually'', ''but what about'',
                   ''this seems'', ''i doubt'', ''is that right'', ''correction'']"

definition verification_score :: "message \<Rightarrow> int" where
  "verification_score msg =
     (let text = toLowerCase (content msg);
          sourceRequests = (str_includes text ''source'' \<or> str_includes text ''reference''
                            \<or> str_includes text ''citation'')
      in (if some_includes verificationMarkers text then 3 else 0)
         + (if some_includes doubtMarkers text then 2 else 0)
         + (if sourceRequests then 2 else 0))"

definition assessVerification :: "message list \<Rightarrow> int" where
  "assessVerification userMessages = min 8 (max_over verification_score userMessages)"

definition biasMarkers :: "string list" where
  "biasMarkers = [''bias'', ''assumption'', ''perspective'', ''point of view'',
                  ''limitation'', ''constraint'', ''what if'', ''alternative'',
                  ''balanced'', ''neutral'', ''objective'', ''subjective'']"

definition challengeMarkers :: "string list" where
  "challengeMarkers = [''why'', ''how do you know'', ''what makes you think'',
                       ''what evidence'', ''prove it'', ''justify'', ''explain why'']"

definition alternativeMarkers :: "string list" where
  "alternativeMarkers = [''other perspective'', ''different angle'', ''alternative view'',
                         ''on the other hand'', ''counterargument'', ''opposing view'']"

definition biasDetection_score :: "message \<Rightarrow> int" where
  "biasDetection_score msg =
     (let text = toLowerCase (content msg)
      in (if some_includes biasMarkers text then 3 else 0)
         + (if some_includes challengeMarkers text then 2 else 0)
         + (if some_includes alternativeMarkers text then 2 else 0))"

definition assessBiasDetection :: "message list \<Rightarrow> int" where
  "assessBiasDetection userMessages = min 8 (max_over biasDetection_score userMessages)"

definition qualityMarkers :: "string list" where
  "qualityMarkers = [''quality'', ''better'', ''improve'', ''enhance'', ''refine'',
                     ''more detailed'', ''more specific'', ''higher quality'',
                     ''comprehensive'', ''thorough'', ''depth'', ''clarity'']"

definition improvementCriteria :: "string list" where
  "improvementCriteria = [''make it more concise'', ''add more details'', ''simplify'',
                          ''more examples'', ''better structure'', ''clearer'',
                          ''more professional'', ''more engaging'', ''more practical'']"

definition comparativeMarkers :: "string list" where
  "comparativeMarkers = [''this is good but'', ''could be better'', ''needs improvement'',
                         ''not quite right'', ''almost there'', ''getting closer'']"

definition qualityAssessment_score :: "message \<Rightarrow> int" where
  "qualityAssessment_score msg =
     (let text = toLowerCase (content msg)
      in (if some_includes qualityMarkers text then 3 else 0)
         + (if some_includes improvementCriteria text then 3 else 0)
         + (if some_includes comparativeMarkers text then 2 else 0))"

definition assessQualityAssessment :: "message list \<Rightarrow> int" where
  "assessQualityAssessment userMessages = min 9 (max_over qualityAssessment_score userMessages)"

definition CriticalThinking_generateFeedback :: "int \<Rightarrow> int \<Rightarrow> int \<Rightarrow> string list" where
  "CriticalThinking_generateFeedback verification biasDetection qualityAssessment =
     (let fb =
        (if verification < 3
         then [''Practice verifying AI outputs - ask for sources and double-check important facts'']
         else [])
        @ (if biasDetection < 3
           then [''Consider potential biases in AI responses and ask for alternative perspectives'']
           else [])
        @ (if qualityAssessment < 3
           then [''Evaluate output quality more critically - specify what makes a response ''
                  @ [CHR 0x27] @ ''good'' @ [CHR 0x27] @ '' or needs improvement'']
           else [])
      in if length fb > 0 then fb
         else [''Your critical thinking skills are excellent! You effectively evaluate and validate AI responses.''])"

definition CriticalThinking_analyze :: "message list \<Rightarrow> dimension_result" where
  "CriticalThinking_analyze conversation =
     (let userMessages = filter is_user conversation in
      if length userMessages = 0
      then \<lparr>score = 0,
            breakdown = [(''verification'', 0), (''biasDetection'', 0),
                         (''qualityAssessment'', 0)],
            feedback = [''No user messages found in conversation'']\<rparr>
      else
        let verification = assessVerification userMessages;
            biasDetection = assessBiasDetection userMessages;
            qualityAssessment = assessQualityAssessment userMessages;
            scores = [(''verification'', verification), (''biasDetection'', biasDetection),
                      (''qualityAssessment'', qualityAssessment)]
        in \<lparr>score = sum_values scores,
            breakdown = scores,
            feedback = CriticalThinking_generateFeedback verification biasDetection
                         qualityAssessment\<rparr>)"

subsection \<open>Scoring engine\<close>

text \<open>A scorer of \<^verbatim>\<open>this.dimensions\<close>: its \<^verbatim>\<open>analyze\<close> either returns a result or
  throws.\<close>

type_synonym analyzer = "message list \<Rightarrow> exn + dimension_result"

record conversation_stats =
  totalMessages :: nat
  userMessages :: nat
  assistantMessages :: nat
  averageUserWords :: nat
  averageAssistantWords :: nat
  conversationDuration :: string

record analysis_report =
  overallScore :: int
  proficiencyLevel :: string
  dimensionScores :: "(string \<times> int) list"
  detailedBreakdown :: "(string \<times> (string \<times> int) list) list"
  report_feedback :: "string list"
  analysisTimestamp :: string
  conversationStats :: conversation_stats

text \<open>\<^verbatim>\<open>msgs.reduce((sum, msg) => sum + msg.content.split(/\s+/).length, 0)\<close>\<close>

definition total_words :: "message list \<Rightarrow> nat" where
  "total_words msgs = foldl (\<lambda>sum msg. sum + wordCount (content msg)) 0 msgs"

text \<open>The quotients and sums of word counts below are taken on the rationals; the doubles
  of the source give the same integers after \<^verbatim>\<open>Math.round\<close> and \<^verbatim>\<open>Math.ceil\<close> for
  every count below \<open>2\<^sup>5\<^sup>0\<close>. \<^verbatim>\<open>Math.round\<close> rounds a half upwards.\<close>

definition Math_round :: "rat \<Rightarrow> int" where
  "Math_round x = \<lfloor>x + 1 / 2\<rfloor>"

definition estimateConversationDuration :: "message list \<Rightarrow> string" where
  "estimateConversationDuration conversation =
     (let totalWords = total_words conversation;
          readingTime = (of_nat totalWords / 200 :: rat);
          writingTime = (of_nat totalWords / 40 :: rat);
          totalMinutes = nat \<lceil>readingTime + writingTime\<rceil>
      in if totalMinutes \<le> 1 then ''1 minute'' else show_nat totalMinutes @ '' minutes'')"

definition getConversationStats :: "message list \<Rightarrow> conversation_stats" where
  "getConversationStats conversation =
     (let users = filter is_user conversation;
          assistants = filter is_assistant conversation;
          totalUserWords = total_words users;
          totalAssistantWords = total_words assistants
      in \<lparr>totalMessages = length conversation,
          userMessages = length users,
          assistantMessages = length assistants,
          averageUserWords =
            (if length users > 0
             then nat (Math_round (of_nat totalUserWords / of_nat (length users))) else 0),
          averageAssistantWords =
            (if length assistants > 0
             then nat (Math_round (of_nat totalAssistantWords / of_nat (length assistants)))
             else 0),
          conversationDuration = estimateConversationDuration conversation\<rparr>)"

text \<open>\<^verbatim>\<open>[...new Set(allFeedback)]\<close>: the first occurrence of each string, in order.\<close>

definition unique :: "string list \<Rightarrow> string list" where
  "unique xs = foldl set_add [] xs"

text \<open>One round of the loop over \<^verbatim>\<open>Object.entries(this.dimensions)\<close> with its
  \<^verbatim>\<open>try\<close>/\<^verbatim>\<open>catch\<close>. The state is \<^verbatim>\<open>scores\<close>, \<^verbatim>\<open>breakdown\<close> and
  \<^verbatim>\<open>allFeedback\<close>; assigning to a property of an object replaces the value of a key that is
  present and appends the key otherwise. The \<^verbatim>\<open>console.error\<close> of the handler writes to
  the log only and is left out.\<close>

definition score_dimension ::
  "message list \<Rightarrow> (string \<times> int) list \<times> (string \<times> (string \<times> int) list) list \<times> string list
     \<Rightarrow> string \<times> analyzer
     \<Rightarrow> (string \<times> int) list \<times> (string \<times> (string \<times> int) list) list \<times> string list" where
  "score_dimension conversation st entry =
     (case st of (scores, bd, allFeedback) \<Rightarrow>
      case entry of (dimensionName, scorer) \<Rightarrow>
        (case scorer conversation of
           Inr result \<Rightarrow>
             (AList.update dimensionName (score result) scores,
              AList.update dimensionName (breakdown result) bd,
              allFeedback @ feedback result)
         | Inl error \<Rightarrow>
             (AList.update dimensionName 0 scores,
              AList.update dimensionName [] bd,
              allFeedback @ [''Scoring issue in '' @ dimensionName])))"

text \<open>\<^verbatim>\<open>analyzeConversation(conversation)\<close> of an engine whose \<^verbatim>\<open>this.dimensions\<close> is
  \<^verbatim>\<open>dimensions\<close>, called when \<^verbatim>\<open>new Date().toISOString()\<close> is \<^verbatim>\<open>now\<close>.\<close>

definition analyzeConversation ::
  "(string \<times> analyzer) list \<Rightarrow> string \<Rightarrow> jsval \<Rightarrow> exn + analysis_report" where
  "analyzeConversation dimensions now conversation =
     (case validate conversation of
        Inl e \<Rightarrow> Inl e
      | Inr msgs \<Rightarrow>
         (case foldl (score_dimension msgs) ([], [], []) dimensions of
            (scores, bd, allFeedback) \<Rightarrow>
              let totalScore = sum_values scores;
                  uniqueFeedback = unique allFeedback
              in Inr \<lparr>overallScore = totalScore,
                      proficiencyLevel = getProficiencyLevel totalScore,
                      dimensionScores = scores,
                      detailedBreakdown = bd,
                      report_feedback = uniqueFeedback,
                      analysisTimestamp = now,
                      conversationStats = getConversationStats msgs\<rparr>))"

text \<open>The table the constructor stores in \<^verbatim>\<open>this.dimensions\<close>. The scorer required from
  \<^verbatim>\<open>./dimensions/iterativeRefinement\<close> is a parameter. The three scorers above contain no
  \<^verbatim>\<open>throw\<close> and read \<^verbatim>\<open>role\<close> and \<^verbatim>\<open>content\<close> of validated messages only, so
  they return.\<close>

definition ScoringEngine_dimensions :: "analyzer \<Rightarrow> (string \<times> analyzer) list" where
  "ScoringEngine_dimensions iterativeRefinementScorer =
     [(''promptEngineering'', \<lambda>conversation. Inr (PromptEngineering_analyze conversation)),
      (''iterativeRefinement'', iterativeRefinementScorer),
      (''problemSolving'', \<lambda>conversation. Inr (ProblemSolving_analyze conversation)),
      (''criticalThinking'', \<lambda>conversation. Inr (CriticalThinking_analyze conversation))]"

text \<open>Reading \<^verbatim>\<open>report.detailedBreakdown[dimension][criterion]\<close>.\<close>

definition breakdown_value :: "analysis_report \<Rightarrow> string \<Rightarrow> string \<Rightarrow> int option" where
  "breakdown_value report dimension criterion =
     (case map_of (detailedBreakdown report) dimension of
        None \<Rightarrow> None
      | Some bd \<Rightarrow> map_of bd criterion)"

text \<open>The caps of the sub-criteria of the three scorers above, as the dimension catalogue of
  \<^verbatim>\<open>getDimensionDescriptions\<close> documents them: dimension, sub-criterion, cap.\<close>

definition documented_caps :: "(string \<times> string \<times> int) list" where
  "documented_caps =
     [(''promptEngineering'', ''specificity'', 6), (''promptEngineering'', ''structure'', 6),
      (''promptEngineering'', ''context'', 6), (''promptEngineering'', ''roleDefinition'', 7),
      (''problemSolving'', ''decomposition'', 8), (''problemSolving'', ''sequencing'', 8),
      (''problemSolving'', ''goalOrientation'', 9),
      (''criticalThinking'', ''verification'', 8), (''criticalThinking'', ''biasDetection'', 8),
      (''criticalThinking'', ''qualityAssessment'', 9)]"

subsection \<open>Definitions that follow the specification\<close>

text \<open>Modelled from the spec: the iterative refinement scorer, whose source
  \<^verbatim>\<open>src/scoring/dimensions/iterativeRefinement.js\<close> is not available. The specification
  fixes its sub-criteria (precision, errorCorrection, progressiveImprovement) and its path for
  a conversation without user messages, which mirrors the prompt engineering scorer: score 0,
  every sub-score 0 and one explanatory feedback string. The wording of that string and the
  behaviour on the other conversations are left open and are parameters here.\<close>

definition IterativeRefinement_analyze :: "string \<Rightarrow> analyzer \<Rightarrow> analyzer" where
  "IterativeRefinement_analyze explanation otherwise conversation =
     (if length (filter is_user conversation) = 0
      then Inr \<lparr>score = 0,
                breakdown = [(''precision'', 0), (''errorCorrection'', 0),
                             (''progressiveImprovement'', 0)],
                feedback = [explanation]\<rparr>
      else otherwise conversation)"

text \<open>The word count in the words of the specification: the number of words of a message,
  a word being a maximal run of characters that are not white space.\<close>

function spec_word_count :: "string \<Rightarrow> nat" where
  "spec_word_count [] = 0"
| "spec_word_count (c # cs) =
     (if is_space c then spec_word_count cs
      else Suc (spec_word_count (dropWhile (\<lambda>d. \<not> is_space d) cs)))"
  by pat_completeness auto
termination
  by (relation "measure length") (auto simp: length_dropWhile_le less_Suc_eq_le)

text \<open>The specificity sub-score in the words of the specification: the maximum over the
  user messages of the points of a message, counted with the number of its words, capped
  at 6.\<close>

definition spec_specificity_score :: "message \<Rightarrow> int" where
  "spec_specificity_score prompt =
     (let text = toLowerCase (content prompt);
          wc = spec_word_count (content prompt)
      in (if wc > 50 then 2 else 0) + (if wc > 100 then 1 else 0)
         + (if some_includes specificMarkers text then 2 else 0)
         + (if \<not> some_includes vagueMarkers text then 1 else 0))"

definition spec_specificity :: "message list \<Rightarrow> int" where
  "spec_specificity prompts = min 6 (Max (insert 0 (spec_specificity_score ` set prompts)))"

text \<open>The class \<^verbatim>\<open>\w\<close>: ASCII letters, digits and the underscore.\<close>

definition is_word_char :: "char \<Rightarrow> bool" where
  "is_word_char c =
     (let n = (of_char c :: nat)
      in (48 \<le> n \<and> n \<le> 57) \<or> (65 \<le> n \<and> n \<le> 90) \<or> n = 95 \<or> (97 \<le> n \<and> n \<le> 122))"

text \<open>The occurrences of the conjunction \<^verbatim>\<open>and\<close> in the words of the specification: the
  places where \<^verbatim>\<open>and\<close> stands as a word of its own, with no word character directly
  before or after it. The flag tells whether a word may start at the head of the text.\<close>

fun and_words :: "bool \<Rightarrow> string \<Rightarrow> nat" where
  "and_words b [] = 0"
| "and_words b (c # cs) =
     (if b \<and> prefix ''and'' (c # cs)
         \<and> (case drop 2 cs of [] \<Rightarrow> True | d # ds \<Rightarrow> \<not> is_word_char d)
      then 1 else 0)
     + and_words (\<not> is_word_char c) cs"

definition spec_and_count :: "string \<Rightarrow> nat" where
  "spec_and_count text = and_words True text"

text \<open>The points of one message for decomposition in the words of the specification.\<close>

definition spec_decomposition_score :: "message \<Rightarrow> int" where
  "spec_decomposition_score msg =
     (let text = toLowerCase (content msg)
      in (if some_includes stepMarkers text then 3 else 0)
         + (if spec_and_count text \<ge> 2 then 2 else 0)
         + (if str_includes text ''1.'' \<and> str_includes text ''2.'' then 2 else 0)
         + (if str_includes text ''subtask'' \<or> str_includes text ''component''
               \<or> str_includes text ''part'' then 1 else 0))"

subsection \<open>Example messages\<close>

text \<open>Fifty words, each followed by a space.\<close>

definition fifty_words_trailing_space :: message where
  "fifty_words_trailing_space =
     \<lparr>role = JStr ''user'', content = concat (replicate 50 ''a '')\<rparr>"

text \<open>One hundred and one words, the last of them \<^verbatim>\<open>specific\<close>.\<close>

definition hundred_and_one_words :: message where
  "hundred_and_one_words =
     \<lparr>role = JStr ''user'', content = concat (replicate 100 ''a '') @ ''specific''\<rparr>"

definition standard_handbook :: message where
  "standard_handbook = \<lparr>role = JStr ''user'', content = ''standard handbook''\<rparr>"

definition earlier_clause :: message where
  "earlier_clause =
     \<lparr>role = JStr ''user'',
      content = ''This has a bug. Act as a senior software architect''\<rparr>"

definition role_phrase_later :: message where
  "role_phrase_later =
     \<lparr>role = JStr ''user'',
      content = ''Please act as a senior software architect, then review the plan''\<rparr>"

section \<open>Properties\<close>

subsection \<open>The proficiency ladder\<close>

text \<open>
  C2. \<^verbatim>\<open>getProficiencyLevel\<close> is monotonic non-decreasing in its integer input with
  respect to the order Novice, Intermediate, Proficient, Advanced, Expert of the tiers, and
  it is the ladder with inclusive lower bounds: scores up to 40 are Novice, 41 to 60
  Intermediate, 61 to 75 Proficient, 76 to 85 Advanced, 86 and above Expert; in particular
  at the eight boundary values 40, 41, 60, 61, 75, 76, 85 and 86.
\<close>

theorem getProficiencyLevel_ladder:
  "(a \<le> b \<longrightarrow> tier_rank (getProficiencyLevel a) \<le> tier_rank (getProficiencyLevel b))
   \<and> getProficiencyLevel s =
       (if s \<le> 40 then ''Novice'' else if s \<le> 60 then ''Intermediate''
        else if s \<le> 75 then ''Proficient'' else if s \<le> 85 then ''Advanced''
        else ''Expert'')
   \<and> getProficiencyLevel 40 = ''Novice'' \<and> getProficiencyLevel 41 = ''Intermediate''
   \<and> getProficiencyLevel 60 = ''Intermediate'' \<and> getProficiencyLevel 61 = ''Proficient''
   \<and> getProficiencyLevel 75 = ''Proficient'' \<and> getProficiencyLevel 76 = ''Advanced''
   \<and> getProficiencyLevel 85 = ''Advanced'' \<and> getProficiencyLevel 86 = ''Expert''"
proof -
  have mono: "a \<le> b \<longrightarrow> tier_rank (getProficiencyLevel a) \<le> tier_rank (getProficiencyLevel b)"
    by (simp add: getProficiencyLevel_def tier_rank_def)
  have ladder: "getProficiencyLevel s =
       (if s \<le> 40 then ''Novice'' else if s \<le> 60 then ''Intermediate''
        else if s \<le> 75 then ''Proficient'' else if s \<le> 85 then ''Advanced''
        else ''Expert'')"
    by (simp add: getProficiencyLevel_def)
  have bounds: "getProficiencyLevel 40 = ''Novice'' \<and> getProficiencyLevel 41 = ''Intermediate''
   \<and> getProficiencyLevel 60 = ''Intermediate'' \<and> getProficiencyLevel 61 = ''Proficient''
   \<and> getProficiencyLevel 75 = ''Proficient'' \<and> getProficiencyLevel 76 = ''Advanced''
   \<and> getProficiencyLevel 85 = ''Advanced'' \<and> getProficiencyLevel 86 = ''Expert''"
    by (simp add: getProficiencyLevel_def)
  from mono ladder bounds show ?thesis by blast
qed

theorem getProficiencyLevel_ladder_witness:
  "(60::int) \<le> 61
   \<and> tier_rank (getProficiencyLevel 60) \<le> tier_rank (getProficiencyLevel 61)
   \<and> getProficiencyLevel 75 = ''Proficient''"
  using getProficiencyLevel_ladder [of 60 61 75] by (simp add: tier_rank_def)

subsection \<open>Helper lemmas on the engine\<close>

lemma analyzeConversation_valid:
  assumes "validate conversation = Inr msgs"
  shows "analyzeConversation dims now conversation =
     Inr \<lparr>overallScore = sum_values (fst (foldl (score_dimension msgs) ([], [], []) dims)),
          proficiencyLevel = getProficiencyLevel
             (sum_values (fst (foldl (score_dimension msgs) ([], [], []) dims))),
          dimensionScores = fst (foldl (score_dimension msgs) ([], [], []) dims),
          detailedBreakdown = fst (snd (foldl (score_dimension msgs) ([], [], []) dims)),
          report_feedback = unique (snd (snd (foldl (score_dimension msgs) ([], [], []) dims))),
          analysisTimestamp = now,
          conversationStats = getConversationStats msgs\<rparr>"
  using assms by (simp add: analyzeConversation_def Let_def split: prod.splits)

lemma engine_scores:
  "fst (foldl (score_dimension msgs) ([], [], []) (ScoringEngine_dimensions ir)) =
     [(''promptEngineering'', score (PromptEngineering_analyze msgs)),
      (''iterativeRefinement'', (case ir msgs of Inl e \<Rightarrow> 0 | Inr r \<Rightarrow> score r)),
      (''problemSolving'', score (ProblemSolving_analyze msgs)),
      (''criticalThinking'', score (CriticalThinking_analyze msgs))]"
  by (simp add: ScoringEngine_dimensions_def score_dimension_def split: sum.splits)

lemma engine_breakdown:
  "fst (snd (foldl (score_dimension msgs) ([], [], []) (ScoringEngine_dimensions ir))) =
     [(''promptEngineering'', breakdown (PromptEngineering_analyze msgs)),
      (''iterativeRefinement'', (case ir msgs of Inl e \<Rightarrow> [] | Inr r \<Rightarrow> breakdown r)),
      (''problemSolving'', breakdown (ProblemSolving_analyze msgs)),
      (''criticalThinking'', breakdown (CriticalThinking_analyze msgs))]"
  by (simp add: ScoringEngine_dimensions_def score_dimension_def split: sum.splits)

lemma sum_values4: "sum_values [(k1, a), (k2, b), (k3, c), (k4, d)] = a + b + c + d"
  by (simp add: sum_values_def)

lemma validate_from_reject:
  assumes "validate_from k pre = Inr ms" and "validate_message elem (k + length pre) = Inl e"
  shows "validate_from k (pre @ elem # post) = Inl e"
  using assms
proof (induction pre arbitrary: k ms)
  case Nil
  then show ?case by simp
next
  case (Cons x xs)
  from Cons.prems(1) obtain m ms' where
    x: "validate_message x k = Inr m" and xs: "validate_from (Suc k) xs = Inr ms'"
    by (auto split: sum.splits)
  from Cons.prems(2) have "validate_message elem (Suc k + length xs) = Inl e" by simp
  from Cons.IH [OF xs this] x show ?case by simp
qed

lemma analyzeConversation_invalid:
  "validate conversation = Inl e \<Longrightarrow> analyzeConversation dims now conversation = Inl e"
  by (simp add: analyzeConversation_def)

lemma validate_non_array:
  "(\<forall>msgs. conversation \<noteq> JArr msgs) \<Longrightarrow>
     validate conversation = Inl (Error ''Conversation must be an array of messages'')"
  by (cases conversation) (simp_all add: validate_def)

lemma validate_message_bad:
  assumes "get_prop elem ''role'' = Inr r" "get_prop elem ''content'' = Inr c"
    and "\<not> truthy r \<or> \<not> truthy c \<or> (\<forall>s. c \<noteq> JStr s)"
  shows "validate_message elem i =
     Inl (Error (if \<not> truthy r \<or> \<not> truthy c
                 then ''Message at index '' @ show_nat i @ '' must have role and content properties''
                 else ''Message content at index '' @ show_nat i @ '' must be a string''))"
  using assms by (cases c) (auto simp: validate_message_def)

lemma includes_must_be_an_array:
  "str_includes ''Conversation must be an array of messages'' ''must be an array''"
  by simp

lemma show_nat_1: "show_nat (Suc 0) = ''1''"
  by code_simp

subsection \<open>The overall score\<close>

text \<open>
  C1. For every conversation that the validation of \<^verbatim>\<open>analyzeConversation\<close> accepts, a
  report is returned, its \<^verbatim>\<open>dimensionScores\<close> has the four entries promptEngineering,
  iterativeRefinement, problemSolving and criticalThinking, and its \<^verbatim>\<open>overallScore\<close> is
  the sum of these four values. This holds whatever the iterative refinement scorer returns
  or throws.
\<close>

theorem overallScore_is_sum:
  assumes "validate conversation = Inr msgs"
  shows "\<exists>report pe ir ps ct.
     analyzeConversation (ScoringEngine_dimensions iterativeRefinementScorer) now conversation
       = Inr report
     \<and> dimensionScores report =
         [(''promptEngineering'', pe), (''iterativeRefinement'', ir),
          (''problemSolving'', ps), (''criticalThinking'', ct)]
     \<and> overallScore report = pe + ir + ps + ct"
  by (simp add: analyzeConversation_valid [OF assms] engine_scores sum_values4)

theorem overallScore_is_sum_witness:
  "validate (JArr [JObj [(''role'', JStr ''user''), (''content'', JStr ''hello'')]])
     = Inr [\<lparr>role = JStr ''user'', content = ''hello''\<rparr>]
   \<and> (\<exists>report pe ir ps ct.
     analyzeConversation (ScoringEngine_dimensions (\<lambda>c. Inl TypeError)) ''2026''
        (JArr [JObj [(''role'', JStr ''user''), (''content'', JStr ''hello'')]]) = Inr report
     \<and> dimensionScores report =
         [(''promptEngineering'', pe), (''iterativeRefinement'', ir),
          (''problemSolving'', ps), (''criticalThinking'', ct)]
     \<and> overallScore report = pe + ir + ps + ct)"
proof -
  have v: "validate (JArr [JObj [(''role'', JStr ''user''), (''content'', JStr ''hello'')]])
     = Inr [\<lparr>role = JStr ''user'', content = ''hello''\<rparr>]"
    by (simp add: validate_def validate_message_def)
  from v overallScore_is_sum [OF v] show ?thesis by blast
qed

subsection \<open>Input validation\<close>

text \<open>
  What the validation does on every input whose elements can be read. A conversation that is
  not an array (for example the string \<^verbatim>\<open>"not an array"\<close>) is rejected with the error
  \<^verbatim>\<open>Conversation must be an array of messages\<close>, whose message contains
  \<^verbatim>\<open>must be an array\<close>, and no report is returned. In an array whose elements before
  index \<^verbatim>\<open>i\<close> pass the validation, an element at index \<^verbatim>\<open>i\<close> whose role or content
  is missing or falsy is rejected with
  \<^verbatim>\<open>Message at index i must have role and content properties\<close>, and one whose content is
  truthy but not a string with \<^verbatim>\<open>Message content at index i must be a string\<close>. The
  element is any value whose properties can be read (not \<^verbatim>\<open>null\<close> or
  \<^verbatim>\<open>undefined\<close>). The result is the same for every table of scorers, also for scorers
  that throw: the validation is done before any scorer is called.
\<close>

theorem invalid_input_rejected:
  "((\<forall>msgs. conversation \<noteq> JArr msgs) \<longrightarrow>
      analyzeConversation dims now conversation
        = Inl (Error ''Conversation must be an array of messages''))
   \<and> analyzeConversation dims now (JStr ''not an array'')
        = Inl (Error ''Conversation must be an array of messages'')
   \<and> str_includes ''Conversation must be an array of messages'' ''must be an array''
   \<and> (validate_from 0 pre = Inr ms \<and> get_prop elem ''role'' = Inr r
        \<and> get_prop elem ''content'' = Inr c
        \<and> (\<not> truthy r \<or> \<not> truthy c \<or> (\<forall>s. c \<noteq> JStr s)) \<longrightarrow>
      analyzeConversation dims now (JArr (pre @ elem # post))
        = Inl (Error (if \<not> truthy r \<or> \<not> truthy c
                      then ''Message at index '' @ show_nat (length pre)
                           @ '' must have role and content properties''
                      else ''Message content at index '' @ show_nat (length pre)
                           @ '' must be a string'')))"
proof -
  have a: "(\<forall>msgs. conversation \<noteq> JArr msgs) \<longrightarrow>
      analyzeConversation dims now conversation
        = Inl (Error ''Conversation must be an array of messages'')"
    by (simp add: validate_non_array analyzeConversation_invalid)
  have b: "analyzeConversation dims now (JStr ''not an array'')
        = Inl (Error ''Conversation must be an array of messages'')"
    by (simp add: validate_def analyzeConversation_invalid)
  have c: "validate_from 0 pre = Inr ms \<and> get_prop elem ''role'' = Inr r
        \<and> get_prop elem ''content'' = Inr c
        \<and> (\<not> truthy r \<or> \<not> truthy c \<or> (\<forall>s. c \<noteq> JStr s)) \<longrightarrow>
      analyzeConversation dims now (JArr (pre @ elem # post))
        = Inl (Error (if \<not> truthy r \<or> \<not> truthy c
                      then ''Message at index '' @ show_nat (length pre)
                           @ '' must have role and content properties''
                      else ''Message content at index '' @ show_nat (length pre)
                           @ '' must be a string''))"
  proof (intro impI, elim conjE)
    assume pre: "validate_from 0 pre = Inr ms" and r: "get_prop elem ''role'' = Inr r"
      and c: "get_prop elem ''content'' = Inr c"
      and bad: "\<not> truthy r \<or> \<not> truthy c \<or> (\<forall>s. c \<noteq> JStr s)"
    have "validate_message elem (0 + length pre) = Inl (Error (if \<not> truthy r \<or> \<not> truthy c
                      then ''Message at index '' @ show_nat (0 + length pre)
                           @ '' must have role and content properties''
                      else ''Message content at index '' @ show_nat (0 + length pre)
                           @ '' must be a string''))"
      by (rule validate_message_bad [OF r c bad])
    from validate_from_reject [OF pre this]
    have "validate (JArr (pre @ elem # post)) = Inl (Error (if \<not> truthy r \<or> \<not> truthy c
                      then ''Message at index '' @ show_nat (length pre)
                           @ '' must have role and content properties''
                      else ''Message content at index '' @ show_nat (length pre)
                           @ '' must be a string''))"
      by (simp add: validate_def)
    then show "analyzeConversation dims now (JArr (pre @ elem # post))
        = Inl (Error (if \<not> truthy r \<or> \<not> truthy c
                      then ''Message at index '' @ show_nat (length pre)
                           @ '' must have role and content properties''
                      else ''Message content at index '' @ show_nat (length pre)
                           @ '' must be a string''))"
      by (rule analyzeConversation_invalid)
  qed
  from a b c includes_must_be_an_array show ?thesis by blast
qed

theorem invalid_input_rejected_witness:
  "(\<forall>msgs. JNum 7 \<noteq> JArr msgs)
   \<and> analyzeConversation [] [] (JNum 7)
        = Inl (Error ''Conversation must be an array of messages'')
   \<and> validate_from 0 [JObj [(''role'', JStr ''user''), (''content'', JStr ''hello'')]]
        = Inr [\<lparr>role = JStr ''user'', content = ''hello''\<rparr>]
   \<and> analyzeConversation [] []
        (JArr [JObj [(''role'', JStr ''user''), (''content'', JStr ''hello'')],
               JObj [(''role'', JStr ''user''), (''content'', JNum 12345)]])
        = Inl (Error ''Message content at index 1 must be a string'')"
proof -
  have p: "validate_from 0 [JObj [(''role'', JStr ''user''), (''content'', JStr ''hello'')]]
        = Inr [\<lparr>role = JStr ''user'', content = ''hello''\<rparr>]"
    by (simp add: validate_message_def)
  have a: "\<forall>msgs. JNum 7 \<noteq> JArr msgs" by simp
  from invalid_input_rejected [of "JNum 7" "[]" "[]"
      "[JObj [(''role'', JStr ''user''), (''content'', JStr ''hello'')]]"
      "[\<lparr>role = JStr ''user'', content = ''hello''\<rparr>]"
      "JObj [(''role'', JStr ''user''), (''content'', JNum 12345)]"
      "JStr ''user''" "JNum 12345" "[]"] p a
  show ?thesis by (simp add: show_nat_1)
qed

text \<open>
  C5. An input that is not an array is rejected with an error whose message contains
  \<^verbatim>\<open>must be an array\<close>, and an array element without role or content, or with a content
  that is not a string, is to be rejected with an error that names its index, before any
  scorer runs. The callback of the validation reads \<^verbatim>\<open>msg.role\<close> without a guard, so
  for the array \<^verbatim>\<open>[null]\<close> (and for \<^verbatim>\<open>[undefined]\<close>), whose element has neither role
  nor content, that read throws a TypeError which names no index; the empty object at the
  same place gets the error of index 0.
\<close>

theorem null_element_type_error:
  "analyzeConversation dims now (JArr [JNull]) = Inl TypeError
   \<and> analyzeConversation dims now (JArr [JUndefined]) = Inl TypeError
   \<and> analyzeConversation dims now (JArr [JObj []])
       = Inl (Error ''Message at index 0 must have role and content properties'')"
proof -
  have zero: "show_nat 0 = ''0''" by code_simp
  have n: "validate (JArr [JNull]) = Inl TypeError"
    by (simp add: validate_def validate_message_def)
  have u: "validate (JArr [JUndefined]) = Inl TypeError"
    by (simp add: validate_def validate_message_def)
  have e: "validate (JArr [JObj []])
       = Inl (Error ''Message at index 0 must have role and content properties'')"
    by (simp add: validate_def validate_message_def zero)
  from n u e show ?thesis by (simp add: analyzeConversation_invalid)
qed

text \<open>
  C9. The presence check of the validation is a truthiness check: in an array whose earlier
  elements pass, an object whose content is the empty string \<^verbatim>\<open>""\<close>, or whose role is
  the empty string, is rejected with
  \<^verbatim>\<open>Message at index i must have role and content properties\<close>. So a conversation
  whose every content field is a string can be rejected as structurally invalid, as the
  conversation with the single message \<^verbatim>\<open>{role: 'user', content: ''}\<close> is.
\<close>

theorem empty_string_rejected:
  "(validate_from 0 pre = Inr ms
      \<and> (map_of kvs ''content'' = Some (JStr []) \<or> map_of kvs ''role'' = Some (JStr [])) \<longrightarrow>
      analyzeConversation dims now (JArr (pre @ JObj kvs # post))
        = Inl (Error (''Message at index '' @ show_nat (length pre)
                      @ '' must have role and content properties'')))
   \<and> analyzeConversation dims now
        (JArr [JObj [(''role'', JStr ''user''), (''content'', JStr [])]])
        = Inl (Error ''Message at index 0 must have role and content properties'')"
proof -
  have gen: "analyzeConversation dims now (JArr (pre @ JObj kvs # post))
        = Inl (Error (''Message at index '' @ show_nat (length pre)
                      @ '' must have role and content properties''))"
    if pre: "validate_from 0 pre = Inr ms"
      and bad: "map_of kvs ''content'' = Some (JStr []) \<or> map_of kvs ''role'' = Some (JStr [])"
    for pre ms kvs post
  proof -
    from bad have "validate_message (JObj kvs) (0 + length pre)
        = Inl (Error (''Message at index '' @ show_nat (length pre)
                      @ '' must have role and content properties''))"
      by (auto simp: validate_message_def)
    from validate_from_reject [OF pre this] show ?thesis
      by (simp add: validate_def analyzeConversation_invalid)
  qed
  have v0: "validate_from 0 [] = Inr []" by simp
  have "show_nat 0 = ''0''" by code_simp
  with gen [OF v0, of "[(''role'', JStr ''user''), (''content'', JStr [])]" "[]"]
  have ex: "analyzeConversation dims now
        (JArr [JObj [(''role'', JStr ''user''), (''content'', JStr [])]])
        = Inl (Error ''Message at index 0 must have role and content properties'')"
    by simp
  from gen ex show ?thesis by blast
qed

theorem empty_string_rejected_witness:
  "validate_from 0 [JObj [(''role'', JStr ''user''), (''content'', JStr ''hello'')]]
        = Inr [\<lparr>role = JStr ''user'', content = ''hello''\<rparr>]
   \<and> analyzeConversation [] []
        (JArr [JObj [(''role'', JStr ''user''), (''content'', JStr ''hello'')],
               JObj [(''role'', JStr []), (''content'', JStr ''text'')]])
        = Inl (Error ''Message at index 1 must have role and content properties'')"
proof -
  have p: "validate_from 0 [JObj [(''role'', JStr ''user''), (''content'', JStr ''hello'')]]
        = Inr [\<lparr>role = JStr ''user'', content = ''hello''\<rparr>]"
    by (simp add: validate_message_def)
  from empty_string_rejected [of
      "[JObj [(''role'', JStr ''user''), (''content'', JStr ''hello'')]]"
      "[\<lparr>role = JStr ''user'', content = ''hello''\<rparr>]"
      "[(''role'', JStr []), (''content'', JStr ''text'')]" "[]" "[]" "[]"] p
  show ?thesis by (simp add: show_nat_1)
qed

subsection \<open>Failure of one scorer\<close>

lemma set_unique_aux: "set (foldl set_add acc xs) = set acc \<union> set xs"
  by (induction xs arbitrary: acc) (auto simp: set_add_def)

lemma set_unique: "set (unique xs) = set xs"
  by (simp add: unique_def set_unique_aux)

lemma fold_keep:
  assumes "d \<notin> fst ` set ds"
  shows "map_of (fst (foldl (score_dimension msgs) st ds)) d = map_of (fst st) d
       \<and> map_of (fst (snd (foldl (score_dimension msgs) st ds))) d = map_of (fst (snd st)) d"
  using assms
proof (induction ds arbitrary: st)
  case Nil
  then show ?case by simp
next
  case (Cons x xs)
  obtain k sc where x: "x = (k, sc)" by (cases x)
  obtain s b f where st: "st = (s, b, f)" by (cases st)
  from Cons.prems x have kd: "k \<noteq> d" and rest: "d \<notin> fst ` set xs" by auto
  have step: "map_of (fst (score_dimension msgs st x)) d = map_of (fst st) d
       \<and> map_of (fst (snd (score_dimension msgs st x))) d = map_of (fst (snd st)) d"
    using kd by (simp add: x st score_dimension_def update_conv split: sum.splits)
  from Cons.IH [OF rest, of "score_dimension msgs st x"] step show ?case by simp
qed

lemma fold_feedback_mono:
  "set (snd (snd st)) \<subseteq> set (snd (snd (foldl (score_dimension msgs) st ds)))"
proof (induction ds arbitrary: st)
  case Nil
  then show ?case by simp
next
  case (Cons x xs)
  obtain k sc where x: "x = (k, sc)" by (cases x)
  obtain s b f where st: "st = (s, b, f)" by (cases st)
  have "set (snd (snd st)) \<subseteq> set (snd (snd (score_dimension msgs st x)))"
    by (auto simp: x st score_dimension_def split: sum.splits)
  with Cons.IH [of "score_dimension msgs st x"] show ?case by auto
qed

lemma fold_entry:
  assumes "distinct (map fst ds)" and "(d, scorer) \<in> set ds"
  shows "map_of (fst (foldl (score_dimension msgs) st ds)) d
           = Some (case scorer msgs of Inl e \<Rightarrow> 0 | Inr res \<Rightarrow> score res)
       \<and> map_of (fst (snd (foldl (score_dimension msgs) st ds))) d
           = Some (case scorer msgs of Inl e \<Rightarrow> [] | Inr res \<Rightarrow> breakdown res)
       \<and> set (case scorer msgs of Inl e \<Rightarrow> [''Scoring issue in '' @ d]
                                | Inr res \<Rightarrow> feedback res)
           \<subseteq> set (snd (snd (foldl (score_dimension msgs) st ds)))"
  using assms
proof (induction ds arbitrary: st)
  case Nil
  then show ?case by simp
next
  case (Cons x xs)
  obtain k sc where x: "x = (k, sc)" by (cases x)
  obtain s b f where st: "st = (s, b, f)" by (cases st)
  show ?case
  proof (cases "(d, scorer) = x")
    case True
    then have k: "k = d" and sc: "sc = scorer" using x by auto
    from Cons.prems(1) x k have notin: "d \<notin> fst ` set xs" by auto
    have step: "map_of (fst (score_dimension msgs st x)) d
           = Some (case scorer msgs of Inl e \<Rightarrow> 0 | Inr res \<Rightarrow> score res)
       \<and> map_of (fst (snd (score_dimension msgs st x))) d
           = Some (case scorer msgs of Inl e \<Rightarrow> [] | Inr res \<Rightarrow> breakdown res)
       \<and> set (case scorer msgs of Inl e \<Rightarrow> [''Scoring issue in '' @ d]
                                | Inr res \<Rightarrow> feedback res)
           \<subseteq> set (snd (snd (score_dimension msgs st x)))"
      by (auto simp: x st k sc score_dimension_def update_conv split: sum.splits)
    from fold_keep [OF notin, of msgs "score_dimension msgs st x"]
      fold_feedback_mono [of "score_dimension msgs st x" msgs xs] step
    show ?thesis by auto
  next
    case False
    with Cons.prems have d: "distinct (map fst xs)" and m: "(d, scorer) \<in> set xs" by auto
    from Cons.IH [OF d m, of "score_dimension msgs st x"] show ?thesis by simp
  qed
qed

lemma sum_values_sum_list: "sum_values scores = sum_list (map snd scores)"
proof -
  have "foldl (\<lambda>sum score. sum + score) a xs = a + sum_list xs" for a :: int and xs
    by (induction xs arbitrary: a) auto
  then show ?thesis by (simp add: sum_values_def)
qed

text \<open>
  C6. On a structurally valid conversation \<^verbatim>\<open>analyzeConversation\<close> returns a report
  whatever the scorers of its table do (the table has distinct dimension names, as an
  object has). For a scorer that throws, the score of its dimension is 0, its breakdown is
  the empty mapping and the feedback contains \<^verbatim>\<open>Scoring issue in\<close> followed by the name
  of the dimension; for every scorer that returns, the report holds its score, its breakdown
  and its feedback; and the overall score is the sum of the recorded scores.
\<close>

theorem analyzer_failure_isolated:
  assumes "validate conversation = Inr msgs" and "distinct (map fst dims)"
  shows "\<exists>report. analyzeConversation dims now conversation = Inr report
     \<and> overallScore report = sum_list (map snd (dimensionScores report))
     \<and> (\<forall>(d, scorer) \<in> set dims.
           (\<forall>e. scorer msgs = Inl e \<longrightarrow>
                 map_of (dimensionScores report) d = Some 0
               \<and> map_of (detailedBreakdown report) d = Some []
               \<and> (''Scoring issue in '' @ d) \<in> set (report_feedback report))
         \<and> (\<forall>res. scorer msgs = Inr res \<longrightarrow>
                 map_of (dimensionScores report) d = Some (score res)
               \<and> map_of (detailedBreakdown report) d = Some (breakdown res)
               \<and> set (feedback res) \<subseteq> set (report_feedback report)))"
proof -
  let ?st = "foldl (score_dimension msgs) ([], [], []) dims"
  let ?report = "\<lparr>overallScore = sum_values (fst ?st),
          proficiencyLevel = getProficiencyLevel (sum_values (fst ?st)),
          dimensionScores = fst ?st,
          detailedBreakdown = fst (snd ?st),
          report_feedback = unique (snd (snd ?st)),
          analysisTimestamp = now,
          conversationStats = getConversationStats msgs\<rparr>"
  have ret: "analyzeConversation dims now conversation = Inr ?report"
    by (rule analyzeConversation_valid [OF assms(1)])
  have total: "overallScore ?report = sum_list (map snd (dimensionScores ?report))"
    by (simp add: sum_values_sum_list)
  have each: "(\<forall>e. scorer msgs = Inl e \<longrightarrow>
                 map_of (dimensionScores ?report) d = Some 0
               \<and> map_of (detailedBreakdown ?report) d = Some []
               \<and> (''Scoring issue in '' @ d) \<in> set (report_feedback ?report))
         \<and> (\<forall>res. scorer msgs = Inr res \<longrightarrow>
                 map_of (dimensionScores ?report) d = Some (score res)
               \<and> map_of (detailedBreakdown ?report) d = Some (breakdown res)
               \<and> set (feedback res) \<subseteq> set (report_feedback ?report))"
    if "(d, scorer) \<in> set dims" for d scorer
    using fold_entry [OF assms(2) that, of msgs "([], [], [])"]
    by (auto simp: set_unique)
  from ret total each show ?thesis by blast
qed

theorem analyzer_failure_isolated_witness:
  "validate (JArr [JObj [(''role'', JStr ''user''), (''content'', JStr ''hello'')]])
     = Inr [\<lparr>role = JStr ''user'', content = ''hello''\<rparr>]
   \<and> distinct (map fst (ScoringEngine_dimensions (\<lambda>c. Inl TypeError)))
   \<and> (\<exists>report.
        analyzeConversation (ScoringEngine_dimensions (\<lambda>c. Inl TypeError)) ''2026''
          (JArr [JObj [(''role'', JStr ''user''), (''content'', JStr ''hello'')]]) = Inr report
      \<and> map_of (dimensionScores report) ''iterativeRefinement'' = Some 0
      \<and> map_of (detailedBreakdown report) ''iterativeRefinement'' = Some []
      \<and> ''Scoring issue in iterativeRefinement'' \<in> set (report_feedback report)
      \<and> map_of (dimensionScores report) ''criticalThinking''
          = Some (score (CriticalThinking_analyze [\<lparr>role = JStr ''user'', content = ''hello''\<rparr>])))"
proof -
  have v: "validate (JArr [JObj [(''role'', JStr ''user''), (''content'', JStr ''hello'')]])
     = Inr [\<lparr>role = JStr ''user'', content = ''hello''\<rparr>]"
    by (simp add: validate_def validate_message_def)
  have d: "distinct (map fst (ScoringEngine_dimensions (\<lambda>c. Inl TypeError)))"
    by (simp add: ScoringEngine_dimensions_def)
  from analyzer_failure_isolated [OF v d, of "''2026''"] v d show ?thesis
    by (auto simp: ScoringEngine_dimensions_def)
qed

subsection \<open>Conversations without user messages\<close>

lemma no_user_PromptEngineering:
  "filter is_user msgs = [] \<Longrightarrow> PromptEngineering_analyze msgs =
     \<lparr>score = 0,
      breakdown = [(''specificity'', 0), (''structure'', 0), (''context'', 0),
                   (''roleDefinition'', 0)],
      feedback = [''No user prompts found in conversation'']\<rparr>"
  by (simp add: PromptEngineering_analyze_def)

lemma no_user_ProblemSolving:
  "filter is_user msgs = [] \<Longrightarrow> ProblemSolving_analyze msgs =
     \<lparr>score = 0,
      breakdown = [(''decomposition'', 0), (''sequencing'', 0), (''goalOrientation'', 0)],
      feedback = [''No user messages found in conversation'']\<rparr>"
  by (simp add: ProblemSolving_analyze_def)

lemma no_user_CriticalThinking:
  "filter is_user msgs = [] \<Longrightarrow> CriticalThinking_analyze msgs =
     \<lparr>score = 0,
      breakdown = [(''verification'', 0), (''biasDetection'', 0), (''qualityAssessment'', 0)],
      feedback = [''No user messages found in conversation'']\<rparr>"
  by (simp add: CriticalThinking_analyze_def)

text \<open>
  C3. For a structurally valid conversation with no message of role \<^verbatim>\<open>'user'\<close>, each
  scorer returns score 0, a breakdown whose entries are all 0 and one explanatory feedback
  string, and \<^verbatim>\<open>analyzeConversation\<close> returns a report (no exception) with
  \<^verbatim>\<open>overallScore\<close> 0 and \<^verbatim>\<open>proficiencyLevel\<close> Novice. The iterative refinement
  scorer is the one modelled from the specification.
\<close>

theorem no_user_messages_zero:
  assumes "validate conversation = Inr msgs" and "filter is_user msgs = []"
  shows "PromptEngineering_analyze msgs =
           \<lparr>score = 0,
            breakdown = [(''specificity'', 0), (''structure'', 0), (''context'', 0),
                         (''roleDefinition'', 0)],
            feedback = [''No user prompts found in conversation'']\<rparr>
       \<and> IterativeRefinement_analyze explanation otherwise msgs =
           Inr \<lparr>score = 0,
                breakdown = [(''precision'', 0), (''errorCorrection'', 0),
                             (''progressiveImprovement'', 0)],
                feedback = [explanation]\<rparr>
       \<and> ProblemSolving_analyze msgs =
           \<lparr>score = 0,
            breakdown = [(''decomposition'', 0), (''sequencing'', 0), (''goalOrientation'', 0)],
            feedback = [''No user messages found in conversation'']\<rparr>
       \<and> CriticalThinking_analyze msgs =
           \<lparr>score = 0,
            breakdown = [(''verification'', 0), (''biasDetection'', 0),
                         (''qualityAssessment'', 0)],
            feedback = [''No user messages found in conversation'']\<rparr>
       \<and> (\<exists>report.
            analyzeConversation
              (ScoringEngine_dimensions (IterativeRefinement_analyze explanation otherwise))
              now conversation = Inr report
          \<and> overallScore report = 0 \<and> proficiencyLevel report = ''Novice'')"
proof -
  have ir: "IterativeRefinement_analyze explanation otherwise msgs =
           Inr \<lparr>score = 0,
                breakdown = [(''precision'', 0), (''errorCorrection'', 0),
                             (''progressiveImprovement'', 0)],
                feedback = [explanation]\<rparr>"
    using assms(2) by (simp add: IterativeRefinement_analyze_def)
  have rep: "\<exists>report.
            analyzeConversation
              (ScoringEngine_dimensions (IterativeRefinement_analyze explanation otherwise))
              now conversation = Inr report
          \<and> overallScore report = 0 \<and> proficiencyLevel report = ''Novice''"
    by (simp add: analyzeConversation_valid [OF assms(1)] engine_scores sum_values4 ir
        no_user_PromptEngineering [OF assms(2)] no_user_ProblemSolving [OF assms(2)]
        no_user_CriticalThinking [OF assms(2)] getProficiencyLevel_def)
  from ir rep no_user_PromptEngineering [OF assms(2)] no_user_ProblemSolving [OF assms(2)]
    no_user_CriticalThinking [OF assms(2)]
  show ?thesis by blast
qed

theorem no_user_messages_zero_witness:
  "validate (JArr [JObj [(''role'', JStr ''assistant''),
                         (''content'', JStr ''Hello! How can I help you?'')]])
     = Inr [\<lparr>role = JStr ''assistant'', content = ''Hello! How can I help you?''\<rparr>]
   \<and> filter is_user [\<lparr>role = JStr ''assistant'', content = ''Hello! How can I help you?''\<rparr>]
       = []
   \<and> (\<exists>report.
        analyzeConversation
          (ScoringEngine_dimensions
             (IterativeRefinement_analyze ''No user messages found in conversation''
                (\<lambda>c. Inl TypeError)))
          ''2026''
          (JArr [JObj [(''role'', JStr ''assistant''),
                       (''content'', JStr ''Hello! How can I help you?'')]]) = Inr report
      \<and> overallScore report = 0 \<and> proficiencyLevel report = ''Novice'')"
proof -
  have v: "validate (JArr [JObj [(''role'', JStr ''assistant''),
                         (''content'', JStr ''Hello! How can I help you?'')]])
     = Inr [\<lparr>role = JStr ''assistant'', content = ''Hello! How can I help you?''\<rparr>]"
    by (simp add: validate_def validate_message_def)
  have u: "filter is_user
             [\<lparr>role = JStr ''assistant'', content = ''Hello! How can I help you?''\<rparr>] = []"
    by (simp add: is_user_def)
  from no_user_messages_zero [OF v u, of "''No user messages found in conversation''"
      "\<lambda>c. Inl TypeError" "''2026''"] v u
  show ?thesis by blast
qed

subsection \<open>Caps of the sub-criteria\<close>

lemma max_over_aux: "m \<le> foldl (\<lambda>maxScore x. max maxScore (f x)) m xs" for m :: int
proof (induction xs arbitrary: m)
  case Nil
  then show ?case by simp
next
  case (Cons x xs)
  have "m \<le> max m (f x)" by simp
  also have "\<dots> \<le> foldl (\<lambda>maxScore x. max maxScore (f x)) (max m (f x)) xs" by (rule Cons.IH)
  finally show ?case by simp
qed

lemma max_over_nonneg: "0 \<le> max_over f xs"
  unfolding max_over_def by (rule max_over_aux)

lemma sequencing_loop_mono: "acc \<le> sequencing_loop msgs acc"
proof (induction msgs acc rule: sequencing_loop.induct)
  case (1 previous current rest sequencingScore)
  have "0 \<le> sequencing_step previous current"
    by (simp add: sequencing_step_def Let_def)
  with 1 show ?case by simp
qed simp_all

lemma assessSequencing_range: "0 \<le> assessSequencing conversation \<and> assessSequencing conversation \<le> 8"
  using sequencing_loop_mono [of 0 "filter is_user conversation"]
  by (simp add: assessSequencing_def Let_def)

lemma assessGoalOrientation_range:
  "0 \<le> assessGoalOrientation conversation \<and> assessGoalOrientation conversation \<le> 9"
  by (simp add: assessGoalOrientation_def Let_def)

lemma PromptEngineering_breakdown:
  "\<exists>a b c d. breakdown (PromptEngineering_analyze msgs) =
       [(''specificity'', a), (''structure'', b), (''context'', c), (''roleDefinition'', d)]
     \<and> 0 \<le> a \<and> a \<le> 6 \<and> 0 \<le> b \<and> b \<le> 6 \<and> 0 \<le> c \<and> c \<le> 6 \<and> 0 \<le> d \<and> d \<le> 7
     \<and> score (PromptEngineering_analyze msgs) = a + b + c + d"
  by (simp add: PromptEngineering_analyze_def Let_def assessSpecificity_def assessStructure_def
      assessContext_def assessRoleDefinition_def max_over_nonneg sum_values_def)

lemma ProblemSolving_breakdown:
  "\<exists>a b c. breakdown (ProblemSolving_analyze msgs) =
       [(''decomposition'', a), (''sequencing'', b), (''goalOrientation'', c)]
     \<and> 0 \<le> a \<and> a \<le> 8 \<and> 0 \<le> b \<and> b \<le> 8 \<and> 0 \<le> c \<and> c \<le> 9
     \<and> score (ProblemSolving_analyze msgs) = a + b + c"
  using assessSequencing_range [of msgs] assessGoalOrientation_range [of msgs]
  by (simp add: ProblemSolving_analyze_def Let_def assessDecomposition_def max_over_nonneg
      sum_values_def)

lemma CriticalThinking_breakdown:
  "\<exists>a b c. breakdown (CriticalThinking_analyze msgs) =
       [(''verification'', a), (''biasDetection'', b), (''qualityAssessment'', c)]
     \<and> 0 \<le> a \<and> a \<le> 8 \<and> 0 \<le> b \<and> b \<le> 8 \<and> 0 \<le> c \<and> c \<le> 9
     \<and> score (CriticalThinking_analyze msgs) = a + b + c"
  by (simp add: CriticalThinking_analyze_def Let_def assessVerification_def
      assessBiasDetection_def assessQualityAssessment_def max_over_nonneg sum_values_def)

text \<open>
  C4. For every structurally valid conversation, each sub-criterion value in the
  \<^verbatim>\<open>detailedBreakdown\<close> of the report lies between 0 and its documented cap: specificity,
  structure and context at most 6, roleDefinition at most 7, decomposition and sequencing at
  most 8, goalOrientation at most 9, verification and biasDetection at most 8,
  qualityAssessment at most 9. The caps bound the sub-criteria one by one; the score of each
  of the three dimensions is the plain sum of its sub-criterion values, with no clamp of its
  own.
\<close>

theorem sub_criterion_caps:
  assumes "validate conversation = Inr msgs"
  shows "\<exists>report.
      analyzeConversation (ScoringEngine_dimensions iterativeRefinementScorer) now conversation
        = Inr report
    \<and> (\<forall>(dimension, criterion, cap) \<in> set documented_caps.
          \<exists>v. breakdown_value report dimension criterion = Some v \<and> 0 \<le> v \<and> v \<le> cap)
    \<and> (\<forall>dimension \<in> {''promptEngineering'', ''problemSolving'', ''criticalThinking''}.
          \<exists>total bd. map_of (dimensionScores report) dimension = Some total
                   \<and> map_of (detailedBreakdown report) dimension = Some bd
                   \<and> total = sum_list (map snd bd))"
proof -
  obtain a b c d where pe: "breakdown (PromptEngineering_analyze msgs) =
       [(''specificity'', a), (''structure'', b), (''context'', c), (''roleDefinition'', d)]"
     "0 \<le> a" "a \<le> 6" "0 \<le> b" "b \<le> 6" "0 \<le> c" "c \<le> 6" "0 \<le> d" "d \<le> 7"
     "score (PromptEngineering_analyze msgs) = a + b + c + d"
    using PromptEngineering_breakdown [of msgs] by blast
  obtain e f g where ps: "breakdown (ProblemSolving_analyze msgs) =
       [(''decomposition'', e), (''sequencing'', f), (''goalOrientation'', g)]"
     "0 \<le> e" "e \<le> 8" "0 \<le> f" "f \<le> 8" "0 \<le> g" "g \<le> 9"
     "score (ProblemSolving_analyze msgs) = e + f + g"
    using ProblemSolving_breakdown [of msgs] by blast
  obtain h i j where ct: "breakdown (CriticalThinking_analyze msgs) =
       [(''verification'', h), (''biasDetection'', i), (''qualityAssessment'', j)]"
     "0 \<le> h" "h \<le> 8" "0 \<le> i" "i \<le> 8" "0 \<le> j" "j \<le> 9"
     "score (CriticalThinking_analyze msgs) = h + i + j"
    using CriticalThinking_breakdown [of msgs] by blast
  show ?thesis
    by (simp add: analyzeConversation_valid [OF assms] engine_scores engine_breakdown
        documented_caps_def breakdown_value_def pe ps ct)
qed

theorem sub_criterion_caps_witness:
  "validate (JArr [JObj [(''role'', JStr ''user''),
                         (''content'', JStr ''Act as a senior software architect'')]])
     = Inr [\<lparr>role = JStr ''user'', content = ''Act as a senior software architect''\<rparr>]
   \<and> roleDefinition_score
        \<lparr>role = JStr ''user'', content = ''Act as a senior software architect''\<rparr> = 10
   \<and> (\<exists>report.
        analyzeConversation (ScoringEngine_dimensions (\<lambda>c. Inl TypeError)) ''2026''
          (JArr [JObj [(''role'', JStr ''user''),
                       (''content'', JStr ''Act as a senior software architect'')]])
          = Inr report
      \<and> (\<exists>v. breakdown_value report ''promptEngineering'' ''roleDefinition'' = Some v
             \<and> 0 \<le> v \<and> v \<le> 7))"
proof -
  have v: "validate (JArr [JObj [(''role'', JStr ''user''),
                         (''content'', JStr ''Act as a senior software architect'')]])
     = Inr [\<lparr>role = JStr ''user'', content = ''Act as a senior software architect''\<rparr>]"
    by (simp add: validate_def validate_message_def)
  have raw: "roleDefinition_score
        \<lparr>role = JStr ''user'', content = ''Act as a senior software architect''\<rparr> = 10"
    by code_simp
  have m: "(''promptEngineering'', ''roleDefinition'', 7) \<in> set documented_caps"
    by (simp add: documented_caps_def)
  from sub_criterion_caps [OF v, of "\<lambda>c. Inl TypeError" "''2026''"] m v raw
  show ?thesis by fastforce
qed

subsection \<open>Specificity\<close>

lemma max_over_Max: "max_over f xs = Max (insert 0 (f ` set xs))"
proof -
  have "foldl (\<lambda>maxScore x. max maxScore (f x)) a xs = Max (insert a (f ` set xs))" for a :: int
  proof (induction xs arbitrary: a)
    case Nil
    then show ?case by simp
  next
    case (Cons x xs)
    have "Max (insert (max a (f x)) (f ` set xs)) = Max (insert a (insert (f x) (f ` set xs)))"
      by (cases "set xs = {}") (simp_all add: max.assoc)
    with Cons show ?case by simp
  qed
  then show ?thesis by (simp add: max_over_def)
qed

lemma str_includes_sublist: "str_includes s m = sublist m s"
  by (induction s) (simp_all add: sublist_Cons_right)

lemma str_includes_map: "str_includes s m \<Longrightarrow> str_includes (map f s) (map f m)"
  unfolding str_includes_sublist sublist_def by (metis map_append)

lemma split_ws_not_Nil: "split_ws s \<noteq> []"
  by (induction s rule: split_ws.induct) (auto split: list.splits)

lemma spec_word_count_dropWhile: "spec_word_count (dropWhile is_space cs) = spec_word_count cs"
  by (induction cs) simp_all

lemma last_dropWhile: "dropWhile P xs \<noteq> [] \<Longrightarrow> last (dropWhile P xs) = last xs"
  by (induction xs) (auto split: if_splits)

lemma wordCount_spec_word_count:
  "wordCount s = spec_word_count s + (if s = [] \<or> is_space (hd s) then 1 else 0)
                 + (if s \<noteq> [] \<and> is_space (last s) then 1 else 0)"
  unfolding wordCount_def
proof (induction s rule: split_ws.induct)
  case 1
  then show ?case by simp
next
  case (2 c cs)
  show ?case
  proof (cases "is_space c")
    case True
    let ?t = "dropWhile is_space cs"
    have len: "length (split_ws (c # cs)) = Suc (length (split_ws ?t))" using True by simp
    have ih: "length (split_ws ?t) = spec_word_count ?t
         + (if ?t = [] \<or> is_space (hd ?t) then 1 else 0)
         + (if ?t \<noteq> [] \<and> is_space (last ?t) then 1 else 0)"
      using 2(1) [OF True] .
    show ?thesis
    proof (cases "?t = []")
      case t: True
      then have all: "\<forall>x\<in>set cs. is_space x" by (simp add: dropWhile_eq_Nil_conv)
      then have sp: "is_space (last (c # cs))" using True by (cases cs) auto
      have l1: "length (split_ws ?t) = 1" unfolding t by simp
      have w0: "spec_word_count cs = 0"
        using spec_word_count_dropWhile [of cs] unfolding t by simp
      from len l1 w0 sp True show ?thesis by simp
    next
      case t: False
      then have "\<not> is_space (hd ?t)" by (rule hd_dropWhile)
      moreover have "last ?t = last (c # cs)"
        using t last_dropWhile [of is_space cs] by (cases cs) auto
      ultimately show ?thesis
        using len ih t True spec_word_count_dropWhile [of cs] by simp
    qed
  next
    case False
    have len: "length (split_ws (c # cs)) = length (split_ws cs)"
      using False split_ws_not_Nil [of cs] by (simp split: list.splits)
    have ih: "length (split_ws cs) = spec_word_count cs
         + (if cs = [] \<or> is_space (hd cs) then 1 else 0)
         + (if cs \<noteq> [] \<and> is_space (last cs) then 1 else 0)"
      using 2(2) [OF False] .
    show ?thesis
    proof (cases cs)
      case Nil
      with len False show ?thesis by simp
    next
      case (Cons d ds)
      with len ih False show ?thesis by (cases "is_space d") simp_all
    qed
  qed
qed

lemma fifty_lower: "toLowerCase (content fifty_words_trailing_space) = content fifty_words_trailing_space"
  by code_simp

lemma fifty_wordCount: "wordCount (content fifty_words_trailing_space) = 51"
  by code_simp

lemma fifty_spec_word_count: "spec_word_count (content fifty_words_trailing_space) = 50"
  by code_simp

lemma fifty_specific: "\<not> some_includes specificMarkers (content fifty_words_trailing_space)"
  by code_simp

lemma fifty_vague: "\<not> some_includes vagueMarkers (content fifty_words_trailing_space)"
  by code_simp

lemma toLowerCase_specific: "toLowerCase ''specific'' = ''specific''"
  by code_simp

lemma hundred_spec_word_count: "spec_word_count (content hundred_and_one_words) = 101"
  by code_simp

lemma hundred_specific: "str_includes (content hundred_and_one_words) ''specific''"
  by code_simp

lemma hundred_lower:
  "toLowerCase (content hundred_and_one_words) = content hundred_and_one_words"
  by code_simp

lemma hundred_vague: "\<not> some_includes vagueMarkers (content hundred_and_one_words)"
  by code_simp

text \<open>
  What the scorer computes. The specificity sub-score is the maximum over the user messages
  of the points of a message, capped at 6. The points are 2 if
  \<^verbatim>\<open>content.split(/\s+/).length\<close> exceeds 50, 1 more if it exceeds 100, 2 if a
  specific-language marker occurs in the lower-cased content and 1 if no vague-language
  marker occurs there. The length of the split is the number of words of the content, plus
  one if the content is empty or starts with white space, plus one if it ends with white
  space. A single user message of exactly 101 words that contains \<^verbatim>\<open>specific\<close> and no
  vague marker scores 6.
\<close>

theorem assessSpecificity_formula:
  "assessSpecificity prompts = min 6 (Max (insert 0 (specificity_score ` set prompts)))
   \<and> specificity_score prompt =
         (if 50 < length (split_ws (content prompt)) then 2 else 0)
       + (if 100 < length (split_ws (content prompt)) then 1 else 0)
       + (if \<exists>marker \<in> set specificMarkers. str_includes (toLowerCase (content prompt)) marker
          then 2 else 0)
       + (if \<not> (\<exists>marker \<in> set vagueMarkers. str_includes (toLowerCase (content prompt)) marker)
          then 1 else 0)
   \<and> length (split_ws s) =
         spec_word_count s + (if s = [] \<or> is_space (hd s) then 1 else 0)
         + (if s \<noteq> [] \<and> is_space (last s) then 1 else 0)
   \<and> (spec_word_count (content prompt) = 101 \<and> str_includes (content prompt) ''specific''
        \<and> \<not> (\<exists>marker \<in> set vagueMarkers. str_includes (toLowerCase (content prompt)) marker)
        \<longrightarrow> assessSpecificity [prompt] = 6)"
proof -
  have fold: "assessSpecificity prompts = min 6 (Max (insert 0 (specificity_score ` set prompts)))"
    by (simp add: assessSpecificity_def max_over_Max)
  have points: "specificity_score prompt =
         (if 50 < length (split_ws (content prompt)) then 2 else 0)
       + (if 100 < length (split_ws (content prompt)) then 1 else 0)
       + (if \<exists>marker \<in> set specificMarkers. str_includes (toLowerCase (content prompt)) marker
          then 2 else 0)
       + (if \<not> (\<exists>marker \<in> set vagueMarkers. str_includes (toLowerCase (content prompt)) marker)
          then 1 else 0)"
    by (simp add: specificity_score_def Let_def wordCount_def some_includes_def list_ex_iff)
  have pieces: "length (split_ws s) =
         spec_word_count s + (if s = [] \<or> is_space (hd s) then 1 else 0)
         + (if s \<noteq> [] \<and> is_space (last s) then 1 else 0)"
    using wordCount_spec_word_count [of s] by (simp add: wordCount_def)
  have scenario: "assessSpecificity [prompt] = 6"
    if w: "spec_word_count (content prompt) = 101"
      and sp: "str_includes (content prompt) ''specific''"
      and vg: "\<not> (\<exists>marker \<in> set vagueMarkers. str_includes (toLowerCase (content prompt)) marker)"
  proof -
    from w wordCount_spec_word_count [of "content prompt"]
    have wc: "100 < length (split_ws (content prompt))" by (simp add: wordCount_def)
    from str_includes_map [OF sp, of toLowerCase_char]
    have "str_includes (toLowerCase (content prompt)) ''specific''"
      using toLowerCase_specific by (simp add: toLowerCase_def)
    then have mk: "\<exists>marker \<in> set specificMarkers.
        str_includes (toLowerCase (content prompt)) marker"
      by (simp add: specificMarkers_def)
    from wc mk vg have "specificity_score prompt = 6" unfolding points by simp
    then show ?thesis by (simp add: assessSpecificity_def max_over_def)
  qed
  from fold points pieces scenario show ?thesis by blast
qed

theorem assessSpecificity_formula_witness:
  "spec_word_count (content hundred_and_one_words) = 101
   \<and> str_includes (content hundred_and_one_words) ''specific''
   \<and> \<not> (\<exists>marker \<in> set vagueMarkers.
           str_includes (toLowerCase (content hundred_and_one_words)) marker)
   \<and> assessSpecificity [hundred_and_one_words] = 6"
proof -
  have vg: "\<not> (\<exists>marker \<in> set vagueMarkers.
           str_includes (toLowerCase (content hundred_and_one_words)) marker)"
    using hundred_vague by (simp add: hundred_lower some_includes_def list_ex_iff)
  from assessSpecificity_formula [of "[]" hundred_and_one_words "[]"]
    hundred_spec_word_count hundred_specific vg
  show ?thesis by blast
qed

text \<open>
  C7. The specificity sub-score is the maximum over the user messages of: 2 if the word count
  of the message exceeds 50, 1 more if it exceeds 100, 2 for a specific-language marker, 1 for
  the absence of every vague-language marker, capped at 6. The scorer names the length of
  \<^verbatim>\<open>content.split(/\s+/)\<close> \<^verbatim>\<open>wordCount\<close> and takes it for the word count, but the split
  is not trimmed: the message of fifty words that ends with a space has 51 pieces, so it is
  given the 2 points of more than 50 words and its sub-score is 3, where the word count 50
  gives 1.
\<close>

theorem specificity_fifty_words_trailing_space:
  "spec_word_count (content fifty_words_trailing_space) = 50
   \<and> wordCount (content fifty_words_trailing_space) = 51
   \<and> assessSpecificity [fifty_words_trailing_space] = 3
   \<and> spec_specificity [fifty_words_trailing_space] = 1"
  by (simp add: assessSpecificity_def spec_specificity_def max_over_def specificity_score_def
      spec_specificity_score_def Let_def fifty_lower fifty_wordCount fifty_spec_word_count
      fifty_specific fifty_vague)

subsection \<open>Decomposition\<close>

lemma positions_Cons:
  "length (filter (\<lambda>i. take 3 (drop i (c # cs)) = ''and'') [0..<length (c # cs)])
     = (if take 3 (c # cs) = ''and'' then 1 else 0)
       + length (filter (\<lambda>i. take 3 (drop i cs) = ''and'') [0..<length cs])"
proof -
  have "[0..<length (c # cs)] = 0 # map Suc [0..<length cs]"
    by (simp add: upt_conv_Cons map_Suc_upt del: upt_Suc)
  then show ?thesis by (simp add: filter_map comp_def del: upt_Suc)
qed

lemma prefix_and: "prefix ''and'' s = (take 3 s = ''and'')"
  by (metis append_eq_conv_conj length_Cons list.size(3) numeral_3_eq_3 prefix_def
      append_take_drop_id)

lemma count_matches_and:
  "count_matches ''and'' s
     = length (filter (\<lambda>i. take 3 (drop i s) = ''and'') [0..<length s])"
proof (induction s rule: length_induct)
  case (1 s)
  show ?case
  proof (cases s)
    case Nil
    then show ?thesis by simp
  next
    case (Cons c cs)
    show ?thesis
    proof (cases "prefix ''and'' (c # cs)")
      case False
      have "count_matches ''and'' cs
         = length (filter (\<lambda>i. take 3 (drop i cs) = ''and'') [0..<length cs])"
        using 1 Cons by simp
      moreover have "count_matches ''and'' (c # cs) = count_matches ''and'' cs"
        using False by auto
      moreover have "take 3 (c # cs) \<noteq> ''and''"
        using False prefix_and [of "c # cs"] by blast
      ultimately show ?thesis
        unfolding Cons positions_Cons by (simp only: if_False add_0)
    next
      case True
      then obtain rest where s: "c # cs = ''and'' @ rest" by (auto simp: prefix_def)
      then have cs: "cs = ''nd'' @ rest" and c: "c = CHR ''a''" by auto
      have ih: "count_matches ''and'' rest
         = length (filter (\<lambda>i. take 3 (drop i rest) = ''and'') [0..<length rest])"
        using 1 Cons cs by simp
      have "count_matches ''and'' (c # cs) = Suc (count_matches ''and'' rest)"
        using True cs by simp
      moreover have "length (filter (\<lambda>i. take 3 (drop i (c # cs)) = ''and'') [0..<length (c # cs)])
         = Suc (length (filter (\<lambda>i. take 3 (drop i rest) = ''and'') [0..<length rest]))"
        unfolding c cs append_Cons append_Nil positions_Cons by simp
      ultimately show ?thesis using ih Cons by simp
    qed
  qed
qed

lemma handbook_lower: "toLowerCase (content standard_handbook) = ''standard handbook''"
  by code_simp

lemma handbook_positions:
  "length (filter (\<lambda>i. take 3 (drop i ''standard handbook'') = ''and'')
             [0..<length ''standard handbook'']) = 2"
  by code_simp

lemma handbook_steps: "\<not> some_includes stepMarkers ''standard handbook''"
  by code_simp

lemma handbook_rest:
  "\<not> str_includes ''standard handbook'' ''1.'' \<and> \<not> str_includes ''standard handbook'' ''subtask''
   \<and> \<not> str_includes ''standard handbook'' ''component''
   \<and> \<not> str_includes ''standard handbook'' ''part''"
  by code_simp

lemma handbook_and_words: "spec_and_count ''standard handbook'' = 0"
  by code_simp

text \<open>
  C8. The decomposition points of one user message (before the maximum over the messages
  and the cap of 8) are 3 for a step-language marker, 2 when the character sequence
  \<^verbatim>\<open>and\<close> occurs at two or more places of the lower-cased text, as a word or inside a
  word, 2 when both \<^verbatim>\<open>1.\<close> and \<^verbatim>\<open>2.\<close> occur, and 1 for sub-task vocabulary.
\<close>

theorem decomposition_score_formula:
  "decomposition_score msg =
       (if \<exists>marker \<in> set stepMarkers. str_includes (toLowerCase (content msg)) marker
        then 3 else 0)
     + (if 2 \<le> length (filter (\<lambda>i. take 3 (drop i (toLowerCase (content msg))) = ''and'')
                           [0..<length (toLowerCase (content msg))])
        then 2 else 0)
     + (if str_includes (toLowerCase (content msg)) ''1.''
           \<and> str_includes (toLowerCase (content msg)) ''2.'' then 2 else 0)
     + (if str_includes (toLowerCase (content msg)) ''subtask''
           \<or> str_includes (toLowerCase (content msg)) ''component''
           \<or> str_includes (toLowerCase (content msg)) ''part'' then 1 else 0)
   \<and> assessDecomposition userMsgs = min 8 (Max (insert 0 (decomposition_score ` set userMsgs)))"
proof -
  have points: "decomposition_score msg =
       (if \<exists>marker \<in> set stepMarkers. str_includes (toLowerCase (content msg)) marker
        then 3 else 0)
     + (if 2 \<le> length (filter (\<lambda>i. take 3 (drop i (toLowerCase (content msg))) = ''and'')
                           [0..<length (toLowerCase (content msg))])
        then 2 else 0)
     + (if str_includes (toLowerCase (content msg)) ''1.''
           \<and> str_includes (toLowerCase (content msg)) ''2.'' then 2 else 0)
     + (if str_includes (toLowerCase (content msg)) ''subtask''
           \<or> str_includes (toLowerCase (content msg)) ''component''
           \<or> str_includes (toLowerCase (content msg)) ''part'' then 1 else 0)"
    unfolding decomposition_score_def Let_def count_matches_and some_includes_def list_ex_iff
    by (rule refl)
  have fold: "assessDecomposition userMsgs
      = min 8 (Max (insert 0 (decomposition_score ` set userMsgs)))"
    by (simp add: assessDecomposition_def max_over_Max)
  from points fold show ?thesis by (rule conjI)
qed

theorem decomposition_score_formula_witness:
  "length (filter (\<lambda>i. take 3 (drop i ''standard handbook'') = ''and'')
             [0..<length ''standard handbook'']) = 2
   \<and> decomposition_score standard_handbook = 2
   \<and> assessDecomposition [standard_handbook] = 2"
  using decomposition_score_formula [of standard_handbook "[standard_handbook]"]
    handbook_positions handbook_steps handbook_rest
  by (simp add: handbook_lower some_includes_def list_ex_iff)

text \<open>
  The message \<^verbatim>\<open>standard handbook\<close> holds no word \<^verbatim>\<open>and\<close>, so with occurrences of
  the conjunction it would earn no point; the scorer finds \<^verbatim>\<open>and\<close> inside both words
  and awards 2.
\<close>

theorem conjunction_and_counterexample:
  "spec_and_count (toLowerCase (content standard_handbook)) = 0
   \<and> spec_decomposition_score standard_handbook = 0
   \<and> decomposition_score standard_handbook = 2"
  using handbook_positions handbook_steps handbook_rest handbook_and_words
  by (simp add: decomposition_score_def spec_decomposition_score_def Let_def handbook_lower
      count_matches_and)

subsection \<open>Role definition\<close>

lemma toLowerCase_drop: "toLowerCase (drop k s) = drop k (toLowerCase s)"
  by (simp add: toLowerCase_def drop_map)

lemma match_here_prefix: "match_here lit s = Some r \<Longrightarrow> prefix lit (toLowerCase s)"
  by (simp add: match_here_def split: if_splits)

lemma act_as_then_as:
  assumes "match_here ''act as '' s = Some r"
  shows "match_here ''as '' (drop 4 s) = Some r"
proof -
  from assms have p: "prefix ''act as '' (toLowerCase s)" by (rule match_here_prefix)
  then obtain zs where zs: "toLowerCase s = ''act as '' @ zs" by (auto simp: prefix_def)
  have "toLowerCase (drop 4 s) = ''as '' @ zs"
    by (simp add: toLowerCase_drop zs)
  then have q: "prefix ''as '' (toLowerCase (drop 4 s))" by simp
  from assms have ar: "article_role (drop (length ''act as '') s) = Some r"
    by (simp only: match_here_def p if_True)
  have n: "length ''as '' + 4 = length ''act as ''" by simp
  show ?thesis
    by (simp only: match_here_def q if_True drop_drop n ar)
qed

lemma no_as_inside_act:
  assumes "prefix ''act as '' (toLowerCase s)" and "k < 4"
  shows "match_here ''as '' (drop k s) = None"
proof -
  from assms(1) obtain zs where zs: "toLowerCase s = ''act as '' @ zs"
    by (auto simp: prefix_def)
  from assms(2) have "k = 0 \<or> k = 1 \<or> k = 2 \<or> k = 3" by arith
  then have "\<not> prefix ''as '' (toLowerCase (drop k s))"
    by (auto simp: toLowerCase_drop zs)
  then show ?thesis by (simp add: match_here_def)
qed

lemma no_act_overlap:
  assumes "prefix ''act as '' (toLowerCase u)" and "1 \<le> d" and "d \<le> 4"
  shows "\<not> prefix ''act as '' (toLowerCase (drop d u))"
proof -
  from assms(1) obtain zs where zs: "toLowerCase u = ''act as '' @ zs"
    by (auto simp: prefix_def)
  from assms(2,3) have "d = 1 \<or> d = 2 \<or> d = 3 \<or> d = 4" by arith
  then show ?thesis by (auto simp: toLowerCase_drop zs)
qed

lemma regex_match_leftmost:
  assumes "match_here lit s = Some r"
    and "\<forall>k < length pre. match_here lit (drop k (pre @ s)) = None"
  shows "regex_match lit (pre @ s) = Some r"
  using assms
proof (induction pre)
  case Nil
  then show ?case by (cases s) simp_all
next
  case (Cons p ps)
  from Cons.prems(2) have here: "match_here lit (p # ps @ s) = None" by force
  have "\<forall>k < length ps. match_here lit (drop k (ps @ s)) = None"
  proof (intro allI impI)
    fix k assume "k < length ps"
    then have "Suc k < length (p # ps)" by simp
    with Cons.prems(2) have "match_here lit (drop (Suc k) ((p # ps) @ s)) = None" by blast
    then show "match_here lit (drop k (ps @ s)) = None" by simp
  qed
  from Cons.IH [OF Cons.prems(1) this] here show ?case by simp
qed

lemma no_earlier_act_as:
  assumes here: "match_here ''act as '' s = Some r"
    and none: "\<forall>k < length pre. match_here ''as '' (drop k (pre @ s)) = None"
  shows "\<forall>k < length pre. match_here ''act as '' (drop k (pre @ s)) = None"
proof (intro allI impI)
  fix k assume k: "k < length pre"
  show "match_here ''act as '' (drop k (pre @ s)) = None"
  proof (rule ccontr)
    assume "match_here ''act as '' (drop k (pre @ s)) \<noteq> None"
    then obtain x where x: "match_here ''act as '' (drop k (pre @ s)) = Some x" by auto
    show False
    proof (cases "k + 4 < length pre")
      case True
      from act_as_then_as [OF x] have "match_here ''as '' (drop (4 + k) (pre @ s)) = Some x"
        by (simp only: drop_drop)
      moreover from True have "4 + k < length pre" by simp
      with none have "match_here ''as '' (drop (4 + k) (pre @ s)) = None" by blast
      ultimately show False by simp
    next
      case False
      let ?d = "length pre - k"
      from False k have d: "1 \<le> ?d" "?d \<le> 4" by auto
      have "drop ?d (drop k (pre @ s)) = s" using k by simp
      with no_act_overlap [OF match_here_prefix [OF x] d] match_here_prefix [OF here]
      show False by simp
    qed
  qed
qed

lemma as_leftmost:
  assumes here: "match_here ''act as '' s = Some r"
    and none: "\<forall>k < length pre. match_here ''as '' (drop k (pre @ s)) = None"
  shows "regex_match ''as '' (pre @ s) = Some r"
proof -
  have split: "pre @ s = (pre @ take 4 s) @ drop 4 s" by simp
  from match_here_prefix [OF here] have len: "7 \<le> length s"
    by (auto simp: prefix_def toLowerCase_def dest!: arg_cong [where f = length])
  have "\<forall>k < length (pre @ take 4 s). match_here ''as '' (drop k ((pre @ take 4 s) @ drop 4 s)) = None"
  proof (intro allI impI)
    fix k assume k: "k < length (pre @ take 4 s)"
    show "match_here ''as '' (drop k ((pre @ take 4 s) @ drop 4 s)) = None"
    proof (cases "k < length pre")
      case True
      with none show ?thesis by simp
    next
      case False
      with k len have "k - length pre < 4" by simp
      from no_as_inside_act [OF match_here_prefix [OF here] this] False
      show ?thesis by simp
    qed
  qed
  from regex_match_leftmost [OF act_as_then_as [OF here] this] show ?thesis by simp
qed

lemma role_points_nonneg: "0 \<le> role_points m"
  by (simp add: role_points_def split: option.splits)

lemma roleDefinition_score_sum:
  "roleDefinition_score prompt =
     role_points (regex_match ''act as '' (content prompt))
     + role_points (regex_match ''you are '' (content prompt))
     + role_points (regex_match ''as '' (content prompt))"
  by (simp add: roleDefinition_score_def rolePatterns_def)

lemma regex_match_decomp:
  "regex_match lit t = Some r \<Longrightarrow> \<exists>pre s. t = pre @ s \<and> match_here lit s = Some r"
proof (induction t)
  case Nil
  then show ?case by simp
next
  case (Cons c cs)
  show ?case
  proof (cases "match_here lit (c # cs)")
    case None
    with Cons.prems have "regex_match lit cs = Some r" by simp
    from Cons.IH [OF this] obtain pre s where "cs = pre @ s" "match_here lit s = Some r"
      by blast
    then have "c # cs = (c # pre) @ s \<and> match_here lit s = Some r" by simp
    then show ?thesis by blast
  next
    case (Some x)
    with Cons.prems have "match_here lit (c # cs) = Some r" by simp
    then have "c # cs = [] @ (c # cs) \<and> match_here lit (c # cs) = Some r" by simp
    then show ?thesis by blast
  qed
qed

lemma regex_match_exists:
  "match_here lit s = Some r \<Longrightarrow> \<exists>x. regex_match lit (pre @ s) = Some x"
proof (induction pre)
  case Nil
  then show ?case by (cases s) simp_all
next
  case (Cons p ps)
  then show ?case by (cases "match_here lit (p # ps @ s)") simp_all
qed

lemma role_points_basic: "5 < length r \<Longrightarrow> 3 \<le> role_points (Some r)"
  by (auto simp: role_points_def)

lemma role_points_detailed: "15 < length r \<Longrightarrow> 5 \<le> role_points (Some r)"
  by (auto simp: role_points_def)

lemma later_here:
  "match_here ''act as '' ''act as a senior software architect, then review the plan''
     = Some ''senior software architect''"
  by code_simp

lemma later_none:
  "\<forall>k < length ''Please ''.
     match_here ''as ''
       (drop k (''Please '' @ ''act as a senior software architect, then review the plan''))
     = None"
proof (intro allI impI)
  fix k :: nat
  assume "k < length ''Please ''"
  then have "k = 0 \<or> k = 1 \<or> k = 2 \<or> k = 3 \<or> k = 4 \<or> k = 5 \<or> k = 6" by auto
  then show "match_here ''as ''
       (drop k (''Please '' @ ''act as a senior software architect, then review the plan''))
     = None"
    by (elim disjE; hypsubst; code_simp)
qed

lemma earlier_act: "regex_match ''act as '' (content earlier_clause) = Some ''senior software architect''"
  by code_simp

lemma earlier_you: "regex_match ''you are '' (content earlier_clause) = None"
  by code_simp

lemma earlier_as: "regex_match ''as '' (content earlier_clause) = Some ''bug''"
  by code_simp

lemma earlier_points: "role_points (Some ''senior software architect'') = 5 \<and> role_points (Some ''bug'') = 0"
  by code_simp

text \<open>
  C10. A user message that the \<^verbatim>\<open>act as (a|an)\<close> pattern matches is matched by the bare
  \<^verbatim>\<open>as (a|an)\<close> pattern too. When the bare pattern has no match that starts before the
  \<^verbatim>\<open>act as\<close> phrase, both patterns capture the same role, and the points of a role
  longer than 5 characters are added twice before the cap: the score of the message before
  the cap is at least 6, and for a role longer than 15 characters it is at least 10, so the
  sub-score is the cap 7.
\<close>

theorem role_phrase_counted_twice:
  "(regex_match ''act as '' t = Some r \<longrightarrow> (\<exists>x. regex_match ''as '' t = Some x))
   \<and> (content prompt = pre @ s \<and> match_here ''act as '' s = Some r
        \<and> (\<forall>k < length pre. match_here ''as '' (drop k (pre @ s)) = None)
        \<and> 5 < length r \<longrightarrow>
          regex_match ''act as '' (content prompt) = Some r
        \<and> regex_match ''as '' (content prompt) = Some r
        \<and> roleDefinition_score prompt =
            2 * role_points (Some r) + role_points (regex_match ''you are '' (content prompt))
        \<and> 6 \<le> roleDefinition_score prompt
        \<and> (15 < length r \<longrightarrow>
              10 \<le> roleDefinition_score prompt \<and> assessRoleDefinition [prompt] = 7))"
proof -
  have both: "\<exists>x. regex_match ''as '' t = Some x" if "regex_match ''act as '' t = Some r"
  proof -
    from regex_match_decomp [OF that] obtain pre s where
      t: "t = pre @ s" and here: "match_here ''act as '' s = Some r" by blast
    from match_here_prefix [OF here] have "7 \<le> length s"
      by (auto simp: prefix_def toLowerCase_def dest!: arg_cong [where f = length])
    then have "t = (pre @ take 4 s) @ drop 4 s" using t by simp
    with regex_match_exists [OF act_as_then_as [OF here], of "pre @ take 4 s"]
    show ?thesis by simp
  qed
  have twice: "regex_match ''act as '' (content prompt) = Some r
        \<and> regex_match ''as '' (content prompt) = Some r
        \<and> roleDefinition_score prompt =
            2 * role_points (Some r) + role_points (regex_match ''you are '' (content prompt))
        \<and> 6 \<le> roleDefinition_score prompt
        \<and> (15 < length r \<longrightarrow>
              10 \<le> roleDefinition_score prompt \<and> assessRoleDefinition [prompt] = 7)"
    if c: "content prompt = pre @ s" and here: "match_here ''act as '' s = Some r"
      and none: "\<forall>k < length pre. match_here ''as '' (drop k (pre @ s)) = None"
      and len: "5 < length r"
  proof -
    have act: "regex_match ''act as '' (content prompt) = Some r"
      unfolding c by (rule regex_match_leftmost [OF here no_earlier_act_as [OF here none]])
    have bare: "regex_match ''as '' (content prompt) = Some r"
      unfolding c by (rule as_leftmost [OF here none])
    have sum: "roleDefinition_score prompt =
         2 * role_points (Some r) + role_points (regex_match ''you are '' (content prompt))"
      by (simp add: roleDefinition_score_sum act bare)
    have six: "6 \<le> roleDefinition_score prompt"
      using role_points_basic [OF len]
        role_points_nonneg [of "regex_match ''you are '' (content prompt)"]
      unfolding sum by linarith
    have ten: "10 \<le> roleDefinition_score prompt \<and> assessRoleDefinition [prompt] = 7"
      if "15 < length r"
    proof -
      have "10 \<le> roleDefinition_score prompt"
        using role_points_detailed [OF that]
          role_points_nonneg [of "regex_match ''you are '' (content prompt)"]
        unfolding sum by linarith
      then show ?thesis by (simp add: assessRoleDefinition_def max_over_def)
    qed
    from act bare sum six ten show ?thesis by blast
  qed
  from both twice show ?thesis by blast
qed

theorem role_phrase_counted_twice_witness:
  "content role_phrase_later
     = ''Please '' @ ''act as a senior software architect, then review the plan''
   \<and> match_here ''act as '' ''act as a senior software architect, then review the plan''
       = Some ''senior software architect''
   \<and> 15 < length ''senior software architect''
   \<and> regex_match ''act as '' (content role_phrase_later) = Some ''senior software architect''
   \<and> regex_match ''as '' (content role_phrase_later) = Some ''senior software architect''
   \<and> 10 \<le> roleDefinition_score role_phrase_later
   \<and> assessRoleDefinition [role_phrase_later] = 7"
proof -
  have c: "content role_phrase_later
     = ''Please '' @ ''act as a senior software architect, then review the plan''"
    by (simp add: role_phrase_later_def)
  have l: "5 < length ''senior software architect''" by simp
  have l': "15 < length ''senior software architect''" by simp
  from role_phrase_counted_twice [where t = "[]" and prompt = role_phrase_later
      and pre = "''Please ''"
      and s = "''act as a senior software architect, then review the plan''"
      and r = "''senior software architect''"] c later_here later_none l l'
  show ?thesis by blast
qed

text \<open>
  In \<^verbatim>\<open>This has a bug. Act as a senior software architect\<close> the bare pattern matches
  first inside \<^verbatim>\<open>has a bug.\<close> and captures \<^verbatim>\<open>bug\<close>, which earns nothing: the role of
  25 characters is counted once, the score before the cap is 5 and the cap is not reached.
\<close>

theorem role_phrase_counterexample:
  "regex_match ''act as '' (content earlier_clause) = Some ''senior software architect''
   \<and> 15 < length ''senior software architect''
   \<and> regex_match ''as '' (content earlier_clause) = Some ''bug''
   \<and> roleDefinition_score earlier_clause = 5
   \<and> assessRoleDefinition [earlier_clause] = 5"
  using earlier_act earlier_you earlier_as earlier_points
  by (simp add: roleDefinition_score_sum assessRoleDefinition_def max_over_def role_points_def)

end
